theory Spec2Isabelle
  imports Complex_Main "HOL-Library.Word"
begin

unbundle bit_operations_syntax

section \<open>JavaScript values used by SplatMesh.js\<close>

text \<open>
  A finite JavaScript number is modelled as the real it denotes; the three non-finite
  values are separate. The only arithmetic the mesh code performs on numbers is the
  product with \<open>1000.0\<close> followed by \<open>Math.round\<close>. Where the operand is an element of a
  \<open>Float32Array\<close> the product is exact in binary64 (a 24-bit significand times 1000)
  and is the real product, \<open>times1000\<close>. Where the operand is an element of a
  \<open>Matrix4\<close>, any binary64 number, the product is rounded to binary64,
  \<open>binary64_times1000\<close>.
\<close>

datatype number = Num real | NaN | PosInfinity | NegInfinity

datatype error =
    Error string
  | ReferenceError string
  | TypeError string
  | RangeError string

text \<open>\<open>x * 1000.0\<close> where \<open>x\<close> is read from a \<open>Float32Array\<close>.\<close>

fun times1000 :: "number \<Rightarrow> number" where
  "times1000 (Num r) = Num (r * 1000)"
| "times1000 NaN = NaN"
| "times1000 PosInfinity = PosInfinity"
| "times1000 NegInfinity = NegInfinity"

text \<open>
  Rounding a real to binary64, to nearest with ties to even. \<open>binary64_exponent\<close> is
  the exponent of the binade: the largest \<open>e\<close> from 1023 down to -1022 with
  \<open>2 powi e\<close> at most the magnitude, and -1022 for the subnormal range. Neighbouring
  binary64 numbers of that binade are \<open>2 powi (e - 52)\<close> apart. A result of magnitude
  \<open>2 ^ 1024\<close> is an overflow to infinity.
\<close>

definition round_half_even :: "real \<Rightarrow> int" where
  "round_half_even r =
     (let f = \<lfloor>r\<rfloor>
      in if r - of_int f < 1 / 2 then f
         else if 1 / 2 < r - of_int f then f + 1
         else if even f then f else f + 1)"

fun exponent_search :: "nat \<Rightarrow> int \<Rightarrow> real \<Rightarrow> int" where
  "exponent_search 0 e x = e"
| "exponent_search (Suc n) e x = (if 2 powi e \<le> x then e else exponent_search n (e - 1) x)"

definition binary64_exponent :: "real \<Rightarrow> int" where
  "binary64_exponent x = exponent_search 2045 1023 \<bar>x\<bar>"

definition binary64 :: "real \<Rightarrow> number" where
  "binary64 x =
     (let quantum = 2 powi (binary64_exponent x - 52);
          y = of_int (round_half_even (x / quantum)) * quantum
      in if 2 ^ 1024 \<le> y then PosInfinity
         else if y \<le> - (2 ^ 1024) then NegInfinity
         else Num y)"

text \<open>\<open>x * 1000.0\<close> where \<open>x\<close> is any number: the product, rounded to binary64.\<close>

fun binary64_times1000 :: "number \<Rightarrow> number" where
  "binary64_times1000 (Num r) = binary64 (r * 1000)"
| "binary64_times1000 NaN = NaN"
| "binary64_times1000 PosInfinity = PosInfinity"
| "binary64_times1000 NegInfinity = NegInfinity"

text \<open>\<open>Math.round\<close>: the nearest integer, a tie going towards plus infinity.\<close>

fun Math_round :: "number \<Rightarrow> number" where
  "Math_round (Num r) = Num (of_int \<lfloor>r + 1 / 2\<rfloor>)"
| "Math_round NaN = NaN"
| "Math_round PosInfinity = PosInfinity"
| "Math_round NegInfinity = NegInfinity"

text \<open>Truncation towards zero, the first step of every integer conversion.\<close>

definition js_truncate :: "real \<Rightarrow> int" where
  "js_truncate r = (if 0 \<le> r then \<lfloor>r\<rfloor> else \<lceil>r\<rceil>)"

text \<open>
  The conversions a typed array applies when a number is stored: \<open>ToInt32\<close> for an
  \<open>Int32Array\<close> and \<open>ToUint16\<close> for a \<open>Uint16Array\<close>. Both reduce the truncated
  value modulo the width (\<open>word_of_int\<close>) and send the non-finite values to 0.
\<close>

fun ToInt32 :: "number \<Rightarrow> 32 word" where
  "ToInt32 (Num r) = word_of_int (js_truncate r)"
| "ToInt32 NaN = 0"
| "ToInt32 PosInfinity = 0"
| "ToInt32 NegInfinity = 0"

fun ToUint16 :: "number \<Rightarrow> 16 word" where
  "ToUint16 (Num r) = word_of_int (js_truncate r)"
| "ToUint16 NaN = 0"
| "ToUint16 PosInfinity = 0"
| "ToUint16 NegInfinity = 0"

text \<open>
  Reading an element: \<open>undefined\<close> (here \<open>None\<close>) outside the bounds, for plain and
  typed arrays alike. Writing a typed array outside its bounds is ignored, which is what
  \<open>xs[i := v]\<close> does in HOL. \<open>ToNumber undefined\<close> is \<open>NaN\<close>.
\<close>

definition element_at :: "'a list \<Rightarrow> nat \<Rightarrow> 'a option" where
  "element_at xs i = (if i < length xs then Some (xs ! i) else None)"

fun ToNumber :: "number option \<Rightarrow> number" where
  "ToNumber None = NaN"
| "ToNumber (Some x) = x"

text \<open>
  A plain \<open>Array\<close> may have holes; an element is \<open>None\<close> where nothing was stored.
  Assigning at or past the end extends the array.
\<close>

definition array_store :: "'a option list \<Rightarrow> nat \<Rightarrow> 'a \<Rightarrow> 'a option list" where
  "array_store xs i v =
     (if i < length xs then xs[i := Some v]
      else xs @ replicate (i - length xs) None @ [Some v])"

text \<open>
  \<open>ToNumber\<close> of an array of counts, as in \<open>this.lastBuildSplatCount * 16\<close>: the empty
  array is 0, a one-element array is its element, anything longer is \<open>NaN\<close>
  (\<open>None\<close>).
\<close>

fun array_ToNumber :: "nat list \<Rightarrow> nat option" where
  "array_ToNumber [] = Some 0"
| "array_ToNumber [n] = Some n"
| "array_ToNumber (n # n' # ns) = None"

section \<open>Collaborators of the mesh\<close>

type_synonym Matrix4 = "number list"

text \<open>
  Modelled from the spec: the point-cloud source buffer (\<open>SplatBuffer.js\<close> is not part
  of the sources at hand). The spec gives it the splat count and maximum splat count
  queries and the bulk extraction of centers, covariances and colors into
  caller-supplied arrays, optionally transformed by a 4x4 matrix and optionally
  restricted to a sub-range. The raw attributes are functions of the transform, the
  local splat index and the component index; the covariance extraction also depends on
  the precision flag.
\<close>

record SplatBuffer =
  splatCount :: nat
  maxSplatCount :: nat
  centerComponent :: "Matrix4 option \<Rightarrow> nat \<Rightarrow> nat \<Rightarrow> number"
  covarianceComponent :: "Matrix4 option \<Rightarrow> bool \<Rightarrow> nat \<Rightarrow> nat \<Rightarrow> number"
  colorComponent :: "Matrix4 option \<Rightarrow> nat \<Rightarrow> nat \<Rightarrow> 8 word"

definition getSplatCount_buffer :: "SplatBuffer \<Rightarrow> nat" where
  "getSplatCount_buffer sb = splatCount sb"

definition getMaxSplatCount_buffer :: "SplatBuffer \<Rightarrow> nat" where
  "getMaxSplatCount_buffer sb = maxSplatCount sb"

text \<open>
  Modelled from the spec: \<open>fillCenters(dst, transform|null, from, to, destOffset)\<close> and
  its two siblings. A missing \<open>from\<close> is 0, a missing \<open>to\<close> is the splat count (the
  range is half open, as the spec writes its ranges), a missing destination offset is
  \<open>from\<close>. Splat \<open>i\<close> of the range lands at splat slot \<open>i - from + dest\<close> of the
  destination, with \<open>n\<close> components per splat.
\<close>

definition fill_range ::
  "nat \<Rightarrow> (nat \<Rightarrow> nat \<Rightarrow> 'a) \<Rightarrow> nat \<Rightarrow> nat \<Rightarrow> nat \<Rightarrow> 'a list \<Rightarrow> 'a list" where
  "fill_range n attr from to dest out =
     fold (\<lambda>i acc. fold (\<lambda>k acc'. acc'[(i - from + dest) * n + k := attr i k]) [0 ..< n] acc)
          [from ..< to] out"

definition fill_bounds :: "SplatBuffer \<Rightarrow> nat option \<Rightarrow> nat option \<Rightarrow> nat option \<Rightarrow> nat \<times> nat \<times> nat" where
  "fill_bounds sb srcFrom srcTo destFrom =
     (let from = (case srcFrom of None \<Rightarrow> 0 | Some f \<Rightarrow> f);
          to = (case srcTo of None \<Rightarrow> splatCount sb | Some t \<Rightarrow> t);
          dest = (case destFrom of None \<Rightarrow> from | Some d \<Rightarrow> d)
      in (from, to, dest))"

definition fillSplatCenterArray ::
  "SplatBuffer \<Rightarrow> number list \<Rightarrow> Matrix4 option \<Rightarrow> nat option \<Rightarrow> nat option \<Rightarrow> nat option
     \<Rightarrow> number list" where
  "fillSplatCenterArray sb outCenterArray transform srcFrom srcTo destFrom =
     (case fill_bounds sb srcFrom srcTo destFrom of
        (from, to, dest) \<Rightarrow>
          fill_range 3 (centerComponent sb transform) from to dest outCenterArray)"

definition fillSplatCovarianceArray ::
  "SplatBuffer \<Rightarrow> number list \<Rightarrow> Matrix4 option \<Rightarrow> nat option \<Rightarrow> nat option \<Rightarrow> nat option
     \<Rightarrow> bool \<Rightarrow> number list" where
  "fillSplatCovarianceArray sb covarianceArray transform srcFrom srcTo destFrom halfPrecision =
     (case fill_bounds sb srcFrom srcTo destFrom of
        (from, to, dest) \<Rightarrow>
          fill_range 6 (covarianceComponent sb transform halfPrecision) from to dest
            covarianceArray)"

definition fillSplatColorArray ::
  "SplatBuffer \<Rightarrow> 8 word list \<Rightarrow> Matrix4 option \<Rightarrow> nat option \<Rightarrow> nat option \<Rightarrow> nat option
     \<Rightarrow> 8 word list" where
  "fillSplatColorArray sb outColorArray transform srcFrom srcTo destFrom =
     (case fill_bounds sb srcFrom srcTo destFrom of
        (from, to, dest) \<Rightarrow>
          fill_range 4 (colorComponent sb transform) from to dest outColorArray)"

text \<open>
  Modelled from the spec: a scene (\<open>SplatScene.js\<close> is not part of the sources at hand)
  is one source buffer plus a 4x4 transform; these are the two fields the mesh reads.
\<close>

record SplatScene =
  splatBuffer :: SplatBuffer
  transform :: Matrix4

text \<open>
  Modelled from the spec: the two encoders of \<open>Util.js\<close>, which is not part of the
  sources at hand. The spec has centers encoded as the 32-bit pattern of their IEEE-754
  layout and colors as one packed RGBA word. \<open>uintEncodedFloat\<close> is a function of the
  number; \<open>rgbaArrayToInteger\<close> packs the four color bytes that start at the offset.
  The bit pattern of a number and the packing of four bytes are parameters.
\<close>

record Util =
  uintEncodedFloat :: "number \<Rightarrow> 32 word"
  rgbaToInteger :: "8 word option \<Rightarrow> 8 word option \<Rightarrow> 8 word option \<Rightarrow> 8 word option \<Rightarrow> 32 word"

definition rgbaArrayToInteger :: "Util \<Rightarrow> 8 word list \<Rightarrow> nat \<Rightarrow> 32 word" where
  "rgbaArrayToInteger util rgbaArray offset =
     rgbaToInteger util (element_at rgbaArray offset) (element_at rgbaArray (offset + 1))
       (element_at rgbaArray (offset + 2)) (element_at rgbaArray (offset + 3))"

section \<open>The global index maps\<close>

text \<open>
  \<open>SplatMesh.buildSplatIndexMaps\<close>: two nested loops that store the local index and the
  scene index at slot \<open>totalSplatCount\<close> of two plain arrays and then advance the slot.
\<close>

record IndexMaps =
  localSplatIndexMap :: "nat option list"
  sceneIndexMap :: "nat option list"

type_synonym index_loop_state = "nat option list \<times> nat option list \<times> nat"

definition index_inner_step :: "nat \<Rightarrow> nat \<Rightarrow> index_loop_state \<Rightarrow> index_loop_state" where
  "index_inner_step s i st =
     (case st of (localMap, sceneMap, totalSplatCount) \<Rightarrow>
        (array_store localMap totalSplatCount i,
         array_store sceneMap totalSplatCount s,
         totalSplatCount + 1))"

definition index_outer_step :: "SplatBuffer list \<Rightarrow> nat \<Rightarrow> index_loop_state \<Rightarrow> index_loop_state" where
  "index_outer_step splatBuffers s st =
     fold (index_inner_step s) [0 ..< getMaxSplatCount_buffer (splatBuffers ! s)] st"

definition buildSplatIndexMaps :: "SplatBuffer list \<Rightarrow> IndexMaps" where
  "buildSplatIndexMaps splatBuffers =
     (case fold (index_outer_step splatBuffers) [0 ..< length splatBuffers] ([], [], 0) of
        (localMap, sceneMap, totalSplatCount) \<Rightarrow>
          \<lparr>localSplatIndexMap = localMap, sceneIndexMap = sceneMap\<rparr>)"

section \<open>Sizing the data textures\<close>

text \<open>
  The closure \<open>computeDataTextureSize\<close> of \<open>uploadSplatDataToTextures\<close>, with the
  captured \<open>maxSplatCount\<close> as its first argument. The size starts at 4096 by 1024 and
  the \<open>while\<close> loop doubles the height; a loop that never ends is the value \<open>None\<close>.
\<close>

partial_function (option) texture_height_loop :: "nat \<Rightarrow> nat \<Rightarrow> nat \<Rightarrow> nat \<Rightarrow> nat \<Rightarrow> nat option" where
  "texture_height_loop maxCount elementsPerTexel elementsPerSplat x y =
     (if x * y * elementsPerTexel < maxCount * elementsPerSplat
      then texture_height_loop maxCount elementsPerTexel elementsPerSplat x (y * 2)
      else Some y)"

definition computeDataTextureSize :: "nat \<Rightarrow> nat \<Rightarrow> nat \<Rightarrow> (nat \<times> nat) option" where
  "computeDataTextureSize maxCount elementsPerTexel elementsPerSplat =
     map_option (\<lambda>y. (4096, y))
       (texture_height_loop maxCount elementsPerTexel elementsPerSplat 4096 1024)"

section \<open>Concrete inputs\<close>

text \<open>A source buffer with \<open>n\<close> splats, all of them loaded.\<close>

definition demo_buffer :: "nat \<Rightarrow> SplatBuffer" where
  "demo_buffer n =
     \<lparr>splatCount = n, maxSplatCount = n,
      centerComponent = (\<lambda>t i k. Num (real i)),
      covarianceComponent = (\<lambda>t h i k. Num (real k)),
      colorComponent = (\<lambda>t i k. 255)\<rparr>"


section \<open>The vertex shader of \<open>buildMaterial\<close>\<close>

text \<open>
  The GLSL source that \<open>SplatMesh.buildMaterial\<close> assembles, as a function from the
  values the shader reads to the values it writes. A GLSL \<open>float\<close> is modelled as a
  real. A matrix is the tuple of its columns, as the GLSL constructors take them, and
  \<open>m[i][j]\<close> is component \<open>j\<close> of column \<open>i\<close>. The texture fetches and the bit
  reinterpretation \<open>uintBitsToFloat\<close> are outside the model: the inputs are the fetched
  center, color word and covariance texels.
\<close>

type_synonym vec2 = "real \<times> real"
type_synonym vec3 = "real \<times> real \<times> real"
type_synonym vec4 = "real \<times> real \<times> real \<times> real"
type_synonym mat3 = "vec3 \<times> vec3 \<times> vec3"
type_synonym mat4 = "vec4 \<times> vec4 \<times> vec4 \<times> vec4"

fun vec3_scale :: "real \<Rightarrow> vec3 \<Rightarrow> vec3" where
  "vec3_scale s (x, y, z) = (s * x, s * y, s * z)"

fun vec3_add :: "vec3 \<Rightarrow> vec3 \<Rightarrow> vec3" where
  "vec3_add (x, y, z) (x', y', z') = (x + x', y + y', z + z')"

fun vec4_scale :: "real \<Rightarrow> vec4 \<Rightarrow> vec4" where
  "vec4_scale s (x, y, z, w) = (s * x, s * y, s * z, s * w)"

fun vec4_add :: "vec4 \<Rightarrow> vec4 \<Rightarrow> vec4" where
  "vec4_add (x, y, z, w) (x', y', z', w') = (x + x', y + y', z + z', w + w')"

text \<open>Matrix times vector: the linear combination of the columns.\<close>

fun mat3_mul_vec3 :: "mat3 \<Rightarrow> vec3 \<Rightarrow> vec3" where
  "mat3_mul_vec3 (c0, c1, c2) (x, y, z) =
     vec3_add (vec3_add (vec3_scale x c0) (vec3_scale y c1)) (vec3_scale z c2)"

fun mat4_mul_vec4 :: "mat4 \<Rightarrow> vec4 \<Rightarrow> vec4" where
  "mat4_mul_vec4 (c0, c1, c2, c3) (x, y, z, w) =
     vec4_add (vec4_add (vec4_add (vec4_scale x c0) (vec4_scale y c1)) (vec4_scale z c2))
              (vec4_scale w c3)"

text \<open>Matrix times matrix: column \<open>j\<close> of the product is the left factor times column \<open>j\<close>.\<close>

fun mat3_mul :: "mat3 \<Rightarrow> mat3 \<Rightarrow> mat3" where
  "mat3_mul A (b0, b1, b2) = (mat3_mul_vec3 A b0, mat3_mul_vec3 A b1, mat3_mul_vec3 A b2)"

fun mat4_mul :: "mat4 \<Rightarrow> mat4 \<Rightarrow> mat4" where
  "mat4_mul A (b0, b1, b2, b3) =
     (mat4_mul_vec4 A b0, mat4_mul_vec4 A b1, mat4_mul_vec4 A b2, mat4_mul_vec4 A b3)"

fun mat3_transpose :: "mat3 \<Rightarrow> mat3" where
  "mat3_transpose ((a0, a1, a2), (b0, b1, b2), (c0, c1, c2)) =
     ((a0, b0, c0), (a1, b1, c1), (a2, b2, c2))"

text \<open>\<open>mat3(m)\<close> of a \<open>mat4\<close>: the upper-left 3x3 block.\<close>

fun mat3_of_mat4 :: "mat4 \<Rightarrow> mat3" where
  "mat3_of_mat4 ((a0, a1, a2, a3), (b0, b1, b2, b3), (c0, c1, c2, c3), d) =
     ((a0, a1, a2), (b0, b1, b2), (c0, c1, c2))"

text \<open>
  \<open>normalize\<close> divides by the length. GLSL leaves the result for the zero vector
  undefined (NaN on IEEE hardware); here the division by zero gives the zero vector, so
  a statement about its value is about the shader only for a vector other than zero.
\<close>

fun normalize :: "vec2 \<Rightarrow> vec2" where
  "normalize (x, y) = (x / sqrt (x * x + y * y), y / sqrt (x * x + y * y))"

definition step :: "real \<Rightarrow> real \<Rightarrow> real" where
  "step edge x = (if x < edge then 0 else 1)"

definition sqrt8 :: real where
  "sqrt8 = sqrt 8"

definition uintToRGBAVec :: "32 word \<Rightarrow> vec4" where
  "uintToRGBAVec u =
     (real (unat (drop_bit 0 (u AND 0x000000FF))) * (1 / 255),
      real (unat (drop_bit 8 (u AND 0x0000FF00))) * (1 / 255),
      real (unat (drop_bit 16 (u AND 0x00FF0000))) * (1 / 255),
      real (unat (drop_bit 24 (u AND 0xFF000000))) * (1 / 255))"

text \<open>
  What one invocation reads. \<open>dynamicTransform\<close> is \<open>transforms[transformIndex]\<close> in
  dynamic mode and absent in static mode, where the shader has no such uniform.
\<close>

record VertexInputs =
  position :: vec2
  splatCenter :: vec3
  sampledColor :: "32 word"
  sampledCovarianceA :: vec2
  sampledCovarianceB :: vec2
  sampledCovarianceC :: vec2
  dynamicTransform :: "mat4 option"
  modelViewMatrix :: mat4
  projectionMatrix :: mat4
  focal :: vec2
  basisViewport :: vec2

definition transformModelViewMatrix :: "VertexInputs \<Rightarrow> mat4" where
  "transformModelViewMatrix inp =
     (case dynamicTransform inp of
        Some t \<Rightarrow> mat4_mul (modelViewMatrix inp) t
      | None \<Rightarrow> modelViewMatrix inp)"

definition viewCenter :: "VertexInputs \<Rightarrow> vec4" where
  "viewCenter inp =
     (case splatCenter inp of (x, y, z) \<Rightarrow>
        mat4_mul_vec4 (transformModelViewMatrix inp) (x, y, z, 1))"

definition clipCenter :: "VertexInputs \<Rightarrow> vec4" where
  "clipCenter inp = mat4_mul_vec4 (projectionMatrix inp) (viewCenter inp)"

text \<open>The condition of the early \<open>return\<close>.\<close>

definition clip_test :: "VertexInputs \<Rightarrow> bool" where
  "clip_test inp =
     (case clipCenter inp of (cx, cy, cz, cw) \<Rightarrow>
        (let clip = 1.2 * cw
         in cz < - clip \<or> cx < - clip \<or> cx > clip \<or> cy < - clip \<or> cy > clip))"

definition vColor :: "VertexInputs \<Rightarrow> vec4" where
  "vColor inp = uintToRGBAVec (sampledColor inp)"

definition Vrk :: "VertexInputs \<Rightarrow> mat3" where
  "Vrk inp =
     (case (sampledCovarianceA inp, sampledCovarianceB inp, sampledCovarianceC inp) of
        ((m11, m12), (m13, m22), (m23, m33)) \<Rightarrow>
          ((m11, m12, m13), (m12, m22, m23), (m13, m23, m33)))"

text \<open>
  The Jacobian of the projection. At view depth zero the shader's \<open>1.0 / (z * z)\<close> and
  \<open>focal / z\<close> are infinite and their products NaN, while the quotients are 0 here, so
  a statement about the values computed from \<open>J\<close> is about the shader only for a depth
  other than zero.
\<close>

definition J :: "VertexInputs \<Rightarrow> mat3" where
  "J inp =
     (case (viewCenter inp, focal inp) of
        ((vx, vy, vz, vw), (fx, fy)) \<Rightarrow>
          (let s = 1 / (vz * vz)
           in ((fx / vz, 0, - (fx * vx) * s),
               (0, fy / vz, - (fy * vy) * s),
               (0, 0, 0))))"

definition W :: "VertexInputs \<Rightarrow> mat3" where
  "W inp = mat3_transpose (mat3_of_mat4 (transformModelViewMatrix inp))"

definition T :: "VertexInputs \<Rightarrow> mat3" where
  "T inp = mat3_mul (W inp) (J inp)"

text \<open>\<open>cov2Dm\<close> as first assigned, and after the two \<open>+= 0.3\<close>.\<close>

definition cov2Dm_projected :: "VertexInputs \<Rightarrow> mat3" where
  "cov2Dm_projected inp = mat3_mul (mat3_mul (mat3_transpose (T inp)) (Vrk inp)) (T inp)"

definition cov2Dm :: "VertexInputs \<Rightarrow> mat3" where
  "cov2Dm inp =
     (case cov2Dm_projected inp of
        ((m00, m01, m02), (m10, m11, m12), c2) \<Rightarrow>
          ((m00 + 0.3, m01, m02), (m10, m11 + 0.3, m12), c2))"

definition cov2Dv :: "VertexInputs \<Rightarrow> vec3" where
  "cov2Dv inp =
     (case cov2Dm inp of ((m00, m01, m02), (m10, m11, m12), c2) \<Rightarrow> (m00, m01, m11))"

definition ndcCenter :: "VertexInputs \<Rightarrow> vec3" where
  "ndcCenter inp = (case clipCenter inp of (cx, cy, cz, cw) \<Rightarrow> (cx / cw, cy / cw, cz / cw))"

definition term2 :: "VertexInputs \<Rightarrow> real" where
  "term2 inp =
     (case cov2Dv inp of (a, b, d) \<Rightarrow>
        (let D = a * d - b * b;
             trace = a + d;
             traceOver2 = 0.5 * trace
         in sqrt (max 0.1 (traceOver2 * traceOver2 - D))))"

definition eigenValue1 :: "VertexInputs \<Rightarrow> real" where
  "eigenValue1 inp = (case cov2Dv inp of (a, b, d) \<Rightarrow> 0.5 * (a + d) + term2 inp)"

text \<open>\<open>eigenValue2\<close> as first assigned, and after the multiplication by \<open>transparentAdjust\<close>.\<close>

definition eigenValue2_solved :: "VertexInputs \<Rightarrow> real" where
  "eigenValue2_solved inp = (case cov2Dv inp of (a, b, d) \<Rightarrow> 0.5 * (a + d) - term2 inp)"

definition transparentAdjust :: "VertexInputs \<Rightarrow> real" where
  "transparentAdjust inp = (case vColor inp of (r, g, b, a) \<Rightarrow> step (1 / 255) a)"

definition eigenValue2 :: "VertexInputs \<Rightarrow> real" where
  "eigenValue2 inp = eigenValue2_solved inp * transparentAdjust inp"

definition eigenVector1 :: "VertexInputs \<Rightarrow> vec2" where
  "eigenVector1 inp = (case cov2Dv inp of (a, b, d) \<Rightarrow> normalize (b, eigenValue1 inp - a))"

definition eigenVector2 :: "VertexInputs \<Rightarrow> vec2" where
  "eigenVector2 inp = (case eigenVector1 inp of (x, y) \<Rightarrow> (y, - x))"

definition basisVector1 :: "VertexInputs \<Rightarrow> vec2" where
  "basisVector1 inp =
     (case eigenVector1 inp of (x, y) \<Rightarrow>
        (x * sqrt8 * sqrt (eigenValue1 inp), y * sqrt8 * sqrt (eigenValue1 inp)))"

definition basisVector2 :: "VertexInputs \<Rightarrow> vec2" where
  "basisVector2 inp =
     (case eigenVector2 inp of (x, y) \<Rightarrow>
        (x * sqrt8 * sqrt (eigenValue2 inp), y * sqrt8 * sqrt (eigenValue2 inp)))"

definition ndcOffset :: "VertexInputs \<Rightarrow> vec2" where
  "ndcOffset inp =
     (case (position inp, basisVector1 inp, basisVector2 inp, basisViewport inp) of
        ((px, py), (b1x, b1y), (b2x, b2y), (bvx, bvy)) \<Rightarrow>
          ((px * b1x + py * b2x) * bvx * 2, (px * b1y + py * b2y) * bvy * 2))"

text \<open>
  What one invocation writes: the early \<open>return\<close> writes \<open>gl_Position\<close> only, a position
  outside the clip volume, so the quad is not rasterized; otherwise the three outputs
  are \<open>gl_Position\<close>, \<open>vColor\<close> and \<open>vPosition\<close>.
\<close>

datatype vertex_result =
    Rejected vec4
  | Emitted vec4 vec4 vec2

definition main :: "VertexInputs \<Rightarrow> vertex_result" where
  "main inp =
     (if clip_test inp then Rejected (0, 0, 2, 1)
      else
        (case (ndcCenter inp, ndcOffset inp, position inp) of
           ((nx, ny, nz), (ox, oy), (px, py)) \<Rightarrow>
             Emitted (nx + ox, ny + oy, nz, 1) (vColor inp) (px * sqrt8, py * sqrt8)))"

text \<open>
  The spec's wording of the projection, for comparison with the shader: matrices as
  functions of row and column, the usual product and transpose. \<open>entries\<close> reads a
  GLSL matrix that way.
\<close>

type_synonym matrix = "nat \<Rightarrow> nat \<Rightarrow> real"

definition matrix_mul :: "matrix \<Rightarrow> matrix \<Rightarrow> matrix" where
  "matrix_mul A B = (\<lambda>i j. \<Sum>k<3. A i k * B k j)"

definition matrix_transpose :: "matrix \<Rightarrow> matrix" where
  "matrix_transpose A = (\<lambda>i j. A j i)"

fun vec3_component :: "vec3 \<Rightarrow> nat \<Rightarrow> real" where
  "vec3_component (x, y, z) r = (if r = 0 then x else if r = 1 then y else if r = 2 then z else 0)"

fun entries :: "mat3 \<Rightarrow> matrix" where
  "entries (c0, c1, c2) =
     (\<lambda>r c. if c = 0 then vec3_component c0 r else if c = 1 then vec3_component c1 r
            else if c = 2 then vec3_component c2 r else 0)"

definition spec_T :: "VertexInputs \<Rightarrow> matrix" where
  "spec_T inp =
     matrix_mul (matrix_transpose (entries (mat3_of_mat4 (transformModelViewMatrix inp))))
                (entries (J inp))"

definition spec_cov2D :: "VertexInputs \<Rightarrow> matrix" where
  "spec_cov2D inp =
     matrix_mul (matrix_mul (matrix_transpose (spec_T inp)) (entries (Vrk inp))) (spec_T inp)"

definition identity4 :: mat4 where
  "identity4 = ((1, 0, 0, 0), (0, 1, 0, 0), (0, 0, 1, 0), (0, 0, 0, 1))"

text \<open>
  A splat on the optical axis under identity matrices, with covariance
  \<open>diag(0.7, 2.7, 1)\<close>, at clip-space depth \<open>z\<close> and with color word \<open>c\<close>.
\<close>

definition axis_splat :: "real \<Rightarrow> 32 word \<Rightarrow> VertexInputs" where
  "axis_splat z c =
     \<lparr>position = (1, 1), splatCenter = (0, 0, z), sampledColor = c,
      sampledCovarianceA = (0.7, 0), sampledCovarianceB = (0, 2.7),
      sampledCovarianceC = (0, 1),
      dynamicTransform = None, modelViewMatrix = identity4, projectionMatrix = identity4,
      focal = (1, 1), basisViewport = (1, 1)\<rparr>"


section \<open>The WebGL context\<close>

text \<open>
  The part of the WebGL2 context that the mesh drives: the live objects by kind, the
  data store of each live buffer, three bindings, and the \<open>texSubImage2D\<close> uploads in
  the order they were issued. A buffer store is a list of 4-byte elements, which is
  what the mesh uploads; every byte offset the mesh passes is a multiple of 16.
  WebGL reports a failed call through \<open>getError\<close> and throws nothing, so a call that
  fails leaves the context as it was.
\<close>

type_synonym gl_handle = nat

datatype cell32 = F32 number | I32 "32 word"

record texSubImage2D_call =
  boundTexture :: "gl_handle option"
  yoffset :: int
  width :: nat
  height :: int
  viewByteOffset :: nat
  viewLength :: nat

record WebGLContext =
  bufferStore :: "gl_handle \<rightharpoonup> cell32 list"
  vertexArrays :: "gl_handle set"
  programs :: "gl_handle set"
  shaders :: "gl_handle set"
  transformFeedbacks :: "gl_handle set"
  VERTEX_ARRAY_BINDING :: "gl_handle option"
  ARRAY_BUFFER_BINDING :: "gl_handle option"
  TEXTURE_BINDING_2D :: "gl_handle option"
  texSubImage2D_calls :: "texSubImage2D_call list"

text \<open>The delete calls ignore \<open>null\<close>; deleting a bound buffer unbinds it.\<close>

definition deleteBuffer :: "WebGLContext \<Rightarrow> gl_handle option \<Rightarrow> WebGLContext" where
  "deleteBuffer gl buffer =
     (case buffer of
        None \<Rightarrow> gl
      | Some h \<Rightarrow>
          gl\<lparr>bufferStore := (bufferStore gl)(h := None),
             ARRAY_BUFFER_BINDING :=
               (if ARRAY_BUFFER_BINDING gl = Some h then None else ARRAY_BUFFER_BINDING gl)\<rparr>)"

definition deleteVertexArray :: "WebGLContext \<Rightarrow> gl_handle option \<Rightarrow> WebGLContext" where
  "deleteVertexArray gl v =
     (case v of
        None \<Rightarrow> gl
      | Some h \<Rightarrow>
          gl\<lparr>vertexArrays := vertexArrays gl - {h},
             VERTEX_ARRAY_BINDING :=
               (if VERTEX_ARRAY_BINDING gl = Some h then None else VERTEX_ARRAY_BINDING gl)\<rparr>)"

definition deleteProgram :: "WebGLContext \<Rightarrow> gl_handle option \<Rightarrow> WebGLContext" where
  "deleteProgram gl p = (case p of None \<Rightarrow> gl | Some h \<Rightarrow> gl\<lparr>programs := programs gl - {h}\<rparr>)"

definition deleteShader :: "WebGLContext \<Rightarrow> gl_handle option \<Rightarrow> WebGLContext" where
  "deleteShader gl s = (case s of None \<Rightarrow> gl | Some h \<Rightarrow> gl\<lparr>shaders := shaders gl - {h}\<rparr>)"

definition deleteTransformFeedback :: "WebGLContext \<Rightarrow> gl_handle option \<Rightarrow> WebGLContext" where
  "deleteTransformFeedback gl t =
     (case t of None \<Rightarrow> gl | Some h \<Rightarrow> gl\<lparr>transformFeedbacks := transformFeedbacks gl - {h}\<rparr>)"

definition bindVertexArray :: "WebGLContext \<Rightarrow> gl_handle option \<Rightarrow> WebGLContext" where
  "bindVertexArray gl v = gl\<lparr>VERTEX_ARRAY_BINDING := v\<rparr>"

definition bindBuffer_ARRAY_BUFFER :: "WebGLContext \<Rightarrow> gl_handle option \<Rightarrow> WebGLContext" where
  "bindBuffer_ARRAY_BUFFER gl b = gl\<lparr>ARRAY_BUFFER_BINDING := b\<rparr>"

definition bindTexture_TEXTURE_2D :: "WebGLContext \<Rightarrow> gl_handle option \<Rightarrow> WebGLContext" where
  "bindTexture_TEXTURE_2D gl t = gl\<lparr>TEXTURE_BINDING_2D := t\<rparr>"

text \<open>\<open>bufferData(ARRAY_BUFFER, data, usage)\<close>: a new store for the bound buffer.\<close>

definition bufferData_ARRAY_BUFFER :: "WebGLContext \<Rightarrow> cell32 list \<Rightarrow> WebGLContext" where
  "bufferData_ARRAY_BUFFER gl srcData =
     (case ARRAY_BUFFER_BINDING gl of
        None \<Rightarrow> gl
      | Some h \<Rightarrow>
          (case bufferStore gl h of
             None \<Rightarrow> gl
           | Some old \<Rightarrow> gl\<lparr>bufferStore := (bufferStore gl)(h \<mapsto> srcData)\<rparr>))"

text \<open>
  \<open>bufferSubData(ARRAY_BUFFER, offset, data)\<close>: overwrites the part of the bound
  buffer's store that starts at the byte offset, when the data fit.
\<close>

definition bufferSubData_ARRAY_BUFFER :: "WebGLContext \<Rightarrow> nat \<Rightarrow> cell32 list \<Rightarrow> WebGLContext" where
  "bufferSubData_ARRAY_BUFFER gl dstByteOffset srcData =
     (case ARRAY_BUFFER_BINDING gl of
        None \<Rightarrow> gl
      | Some h \<Rightarrow>
          (case bufferStore gl h of
             None \<Rightarrow> gl
           | Some old \<Rightarrow>
               (let i = dstByteOffset div 4
                in if dstByteOffset mod 4 = 0 \<and> i + length srcData \<le> length old
                   then gl\<lparr>bufferStore := (bufferStore gl)
                              (h \<mapsto> take i old @ srcData @ drop (i + length srcData) old)\<rparr>
                   else gl)))"

definition texSubImage2D :: "WebGLContext \<Rightarrow> int \<Rightarrow> nat \<Rightarrow> int \<Rightarrow> nat \<times> nat \<Rightarrow> WebGLContext" where
  "texSubImage2D gl y w h view =
     gl\<lparr>texSubImage2D_calls := texSubImage2D_calls gl @
          [\<lparr>boundTexture = TEXTURE_BINDING_2D gl, yoffset = y, width = w, height = h,
            viewByteOffset = fst view, viewLength = snd view\<rparr>]\<rparr>"

section \<open>The state of a SplatMesh\<close>

text \<open>
  A \<open>THREE.DataTexture\<close> as far as the mesh uses it: the \<open>needsUpdate\<close> request, and the
  GL texture the renderer keeps for it (\<open>renderer.properties.get(texture).__webglTexture\<close>),
  absent until the renderer has uploaded the texture. The image data of a texture is the
  typed array of the descriptor that holds it; the two are one object in the source.
\<close>

record DataTexture =
  needsUpdate :: bool
  webglTexture :: "gl_handle option"

record 'a TextureDescriptor =
  data :: 'a
  texture :: DataTexture
  texSize :: "nat \<times> nat"

text \<open>The padded covariances are a \<open>Float32Array\<close> or, with half precision, a \<open>Uint16Array\<close>.\<close>

datatype covariances_data = Float32Array "number list" | Uint16Array "16 word list"

record BaseData =
  covariances :: "number list"
  centers :: "number list"
  colors :: "8 word list"

text \<open>
  \<open>this.splatDataTextures\<close>: the constructor's \<open>{}\<close> has no entries, \<open>null\<close> is \<open>None\<close>
  one level up. The key of the transform indexes is spelt as in the source.
\<close>

record SplatDataTextures =
  baseData :: "BaseData option"
  covariances_entry :: "covariances_data TextureDescriptor option"
  centerColors :: "32 word list TextureDescriptor option"
  tansformIndexes :: "32 word list TextureDescriptor option"

text \<open>
  The material: the dummy \<open>MeshBasicMaterial\<close> of the constructor, which has no
  uniforms, or the shader material of \<open>buildMaterial\<close>. A texture uniform holds the
  texture object of the entry of \<open>splatDataTextures\<close> it names. The transform-index
  uniforms exist when the material was built in dynamic mode.
\<close>

datatype texture_ref = CovariancesTexture | CentersColorsTexture | TransformIndexesTexture

record Uniforms =
  covariancesTexture :: "texture_ref option"
  covariancesTextureSize :: "nat \<times> nat"
  centersColorsTexture :: "texture_ref option"
  centersColorsTextureSize :: "nat \<times> nat"
  hasTransformIndexesUniforms :: bool
  transformIndexesTexture :: "texture_ref option"
  transformIndexesTextureSize :: "nat \<times> nat"
  uniformsNeedUpdate :: bool

datatype material = DummyMaterial | ShaderMaterial Uniforms

datatype geometry = DummyGeometry | SplatGeometry nat

text \<open>\<open>this.distancesTransformFeedback\<close>; the attribute and uniform locations are left out.\<close>

record DistancesTransformFeedback =
  id_feedback :: "gl_handle option"
  vertexShader :: "gl_handle option"
  fragmentShader :: "gl_handle option"
  program :: "gl_handle option"
  centersBuffer :: "gl_handle option"
  transformIndexesBuffer :: "gl_handle option"
  outDistancesBuffer :: "gl_handle option"
  vao :: "gl_handle option"

text \<open>
  The mesh. \<open>renderer\<close> is the renderer through its GL context, \<open>None\<close> while
  undefined; \<open>webGLUtils\<close> records whether \<open>this.webGLUtils\<close> is set.
\<close>

record SplatMesh =
  renderer :: "WebGLContext option"
  webGLUtils :: bool
  halfPrecisionCovariancesOnGPU :: bool
  dynamicMode :: bool
  enableDistancesComputationOnGPU :: bool
  integerBasedDistancesComputation :: bool
  scenes :: "SplatScene list"
  splatTree :: "unit option"
  geometry_mesh :: "geometry option"
  material_mesh :: "material option"
  splatDataTextures :: "SplatDataTextures option"
  distancesTransformFeedback :: DistancesTransformFeedback
  globalSplatIndexToLocalSplatIndexMap :: "nat option list"
  globalSplatIndexToSceneIndexMap :: "nat option list"
  lastBuildSplatCount :: "nat list"
  lastBuildMaxSplatCount :: nat
  lastBuildSceneCount :: nat

text \<open>A throwing call stops the caller: the rest runs only on a returned value.\<close>

definition bindE :: "error + 'a \<Rightarrow> ('a \<Rightarrow> error + 'b) \<Rightarrow> error + 'b" where
  "bindE r f = (case r of Inl e \<Rightarrow> Inl e | Inr x \<Rightarrow> f x)"

definition getSplatCount :: "SplatMesh \<Rightarrow> nat" where
  "getSplatCount m = fold (\<lambda>scene total. total + getSplatCount_buffer (splatBuffer scene)) (scenes m) 0"

definition getMaxSplatCount :: "SplatMesh \<Rightarrow> nat" where
  "getMaxSplatCount m =
     fold (\<lambda>scene total. total + getMaxSplatCount_buffer (splatBuffer scene)) (scenes m) 0"

definition getScene :: "SplatMesh \<Rightarrow> nat \<Rightarrow> error + SplatScene" where
  "getScene m sceneIndex =
     (if sceneIndex \<ge> length (scenes m)
      then Inl (Error ''SplatMesh::getScene() -> Invalid scene index.'')
      else Inr (scenes m ! sceneIndex))"

definition checkForMultiSceneUpdateCondition ::
  "SplatMesh \<Rightarrow> bool \<Rightarrow> string \<Rightarrow> string \<Rightarrow> error + unit" where
  "checkForMultiSceneUpdateCondition m sinceLastBuild functionName parameterName =
     (if length (scenes m) > 1 \<and> sinceLastBuild
      then Inl (Error (functionName @ ''() -> '' @ [CHR 0x27] @ parameterName @ [CHR 0x27] @
                       '' cannot be true if splat mesh has more than one scene.''))
      else Inr ())"

section \<open>Extracting splat data\<close>

text \<open>
  \<open>fillSplatDataArrays\<close>. The three destinations are optional and are written in
  place; the model returns them. The loop carries \<open>destfrom\<close> and
  \<open>applySceneTransform\<close>, which the first iteration defaults when the caller left it
  undefined. \<open>srcTo\<close> is declared and never assigned.
\<close>

type_synonym fill_arrays = "number list option \<times> number list option \<times> 8 word list option"

fun fillSplatDataArrays_loop ::
  "SplatMesh \<Rightarrow> bool \<Rightarrow> bool \<Rightarrow> nat list \<Rightarrow> nat \<times> bool option \<times> fill_arrays
     \<Rightarrow> error + nat \<times> bool option \<times> fill_arrays" where
  "fillSplatDataArrays_loop m sinceLastBuild forceDestFromZero [] st = Inr st"
| "fillSplatDataArrays_loop m sinceLastBuild forceDestFromZero (i # rest)
     (destfrom, applyOpt, (covs, cens, cols)) =
     (let applySceneTransform = (case applyOpt of None \<Rightarrow> \<not> dynamicMode m | Some a \<Rightarrow> a);
          srcFrom = (if sinceLastBuild then element_at (lastBuildSplatCount m) i else None);
          srcTo = None;
          localDestFrom =
            (if sinceLastBuild then (if forceDestFromZero then Some 0 else srcFrom)
             else Some destfrom)
      in bindE (getScene m i) (\<lambda>scene.
           let sb = splatBuffer scene;
               sceneTransform = (if applySceneTransform then Some (transform scene) else None);
               covs' = map_option (\<lambda>a. fillSplatCovarianceArray sb a sceneTransform srcFrom srcTo
                                         localDestFrom (halfPrecisionCovariancesOnGPU m)) covs;
               cens' = map_option (\<lambda>a. fillSplatCenterArray sb a sceneTransform srcFrom srcTo
                                         localDestFrom) cens;
               cols' = map_option (\<lambda>a. fillSplatColorArray sb a sceneTransform srcFrom srcTo
                                         localDestFrom) cols
           in fillSplatDataArrays_loop m sinceLastBuild forceDestFromZero rest
                (destfrom + getSplatCount_buffer sb, Some applySceneTransform,
                 (covs', cens', cols'))))"

definition fillSplatDataArrays ::
  "SplatMesh \<Rightarrow> number list option \<Rightarrow> number list option \<Rightarrow> 8 word list option \<Rightarrow> bool option
     \<Rightarrow> bool \<Rightarrow> bool \<Rightarrow> error + fill_arrays" where
  "fillSplatDataArrays m covs cens cols applySceneTransform sinceLastBuild forceDestFromZero =
     bindE (checkForMultiSceneUpdateCondition m sinceLastBuild
              ''fillSplatDataArrays'' ''sinceLastBuild'') (\<lambda>_.
     bindE (fillSplatDataArrays_loop m sinceLastBuild forceDestFromZero
              [0 ..< length (scenes m)] (0, applySceneTransform, (covs, cens, cols)))
           (\<lambda>st. Inr (snd (snd st))))"

text \<open>
  The length of a new typed array: \<open>NaN\<close> (\<open>None\<close>) gives the empty array, a negative
  length throws.
\<close>

definition typed_array_length :: "int option \<Rightarrow> error + nat" where
  "typed_array_length len =
     (case len of
        None \<Rightarrow> Inr 0
      | Some n \<Rightarrow> if n < 0 then Inl (RangeError ''Invalid typed array length'') else Inr (nat n))"

text \<open>\<open>splatCount - this.lastBuildSplatCount[0]\<close>, or the splat count.\<close>

definition fillCount_of :: "SplatMesh \<Rightarrow> bool \<Rightarrow> int option" where
  "fillCount_of m sinceLastBuild =
     (if sinceLastBuild
      then map_option (\<lambda>l. int (getSplatCount m) - int l) (element_at (lastBuildSplatCount m) 0)
      else Some (int (getSplatCount m)))"

definition loop_bound :: "int option \<Rightarrow> nat" where
  "loop_bound n = (case n of None \<Rightarrow> 0 | Some k \<Rightarrow> nat k)"

text \<open>
  What is stored for a center component: \<open>Math.round(x * 1000.0)\<close> into an
  \<open>Int32Array\<close>, with \<open>x\<close> read from the \<open>Float32Array\<close> of float centers.
\<close>

definition to_fixed :: "number \<Rightarrow> 32 word" where
  "to_fixed x = ToInt32 (Math_round (times1000 x))"

definition integer_center_step :: "bool \<Rightarrow> number list \<Rightarrow> nat \<Rightarrow> 32 word list \<Rightarrow> 32 word list" where
  "integer_center_step padFour floatCenters i intCenters =
     (let componentCount = (if padFour then 4 else 3);
          filled = fold (\<lambda>t acc. acc[i * componentCount + t :=
                      to_fixed (ToNumber (element_at floatCenters (i * 3 + t)))])
                    [0 ..< 3] intCenters
      in if padFour then filled[i * componentCount + 3 := 1000] else filled)"

definition getIntegerCenters :: "SplatMesh \<Rightarrow> bool \<Rightarrow> bool \<Rightarrow> error + 32 word list" where
  "getIntegerCenters m padFour sinceLastBuild =
     bindE (checkForMultiSceneUpdateCondition m sinceLastBuild
              ''getIntegerCenters'' ''sinceLastBuild'') (\<lambda>_.
     let fillCount = fillCount_of m sinceLastBuild
     in bindE (typed_array_length (map_option (\<lambda>n. n * 3) fillCount)) (\<lambda>len.
        bindE (fillSplatDataArrays m None (Some (replicate len (Num 0))) None None
                 sinceLastBuild sinceLastBuild) (\<lambda>filled.
        let floatCenters = (case fst (snd filled) of Some a \<Rightarrow> a | None \<Rightarrow> replicate len (Num 0));
            componentCount = (if padFour then 4 else 3)
        in bindE (typed_array_length (map_option (\<lambda>n. n * componentCount) fillCount)) (\<lambda>ilen.
             Inr (fold (integer_center_step padFour floatCenters) [0 ..< loop_bound fillCount]
                       (replicate ilen 0))))))"

text \<open>
  Reading a \<open>const\<close> binding: before its declaration has run the binding is
  uninitialised (\<open>None\<close>) and the read throws a \<open>ReferenceError\<close>.
\<close>

definition read_binding :: "string \<Rightarrow> 'a option \<Rightarrow> error + 'a" where
  "read_binding name b =
     (case b of
        None \<Rightarrow> Inl (ReferenceError (''Cannot access '' @ [CHR 0x27] @ name @ [CHR 0x27] @
                                      '' before initialization''))
      | Some v \<Rightarrow> Inr v)"

text \<open>
  \<open>getFloatCenters\<close>. The call of \<open>fillSplatDataArrays\<close> reads \<open>floatCenters\<close> one
  statement before \<open>const floatCenters = ...\<close>, while the binding is uninitialised.
  The statements after it are modelled as written.
\<close>

definition padded_center_step :: "number list \<Rightarrow> nat \<Rightarrow> number list \<Rightarrow> number list" where
  "padded_center_step floatCenters i paddedFloatCenters =
     (fold (\<lambda>t acc. acc[i * 4 + t := ToNumber (element_at floatCenters (i * 3 + t))])
           [0 ..< 3] paddedFloatCenters)
       [i * 4 + 3 := Num 1]"

definition getFloatCenters :: "SplatMesh \<Rightarrow> bool \<Rightarrow> bool \<Rightarrow> error + number list" where
  "getFloatCenters m padFour sinceLastBuild =
     bindE (checkForMultiSceneUpdateCondition m sinceLastBuild
              ''getFloatCenters'' ''sinceLastBuild'') (\<lambda>_.
     let fillCount = fillCount_of m sinceLastBuild
     in bindE (read_binding ''floatCenters'' None) (\<lambda>floatCenters_read.
        bindE (fillSplatDataArrays m None (Some floatCenters_read) None None
                 sinceLastBuild sinceLastBuild) (\<lambda>_.
        bindE (typed_array_length (map_option (\<lambda>n. n * 3) fillCount)) (\<lambda>len.
        let floatCenters = replicate len (Num 0)
        in if \<not> padFour then Inr floatCenters
           else bindE (typed_array_length (map_option (\<lambda>n. n * 4) fillCount)) (\<lambda>plen.
                  Inr (fold (padded_center_step floatCenters) [0 ..< loop_bound fillCount]
                            (replicate plen (Num 0))))))))"

text \<open>
  \<open>getIntegerMatrixArray\<close> fills a plain array, so nothing is reduced to 32 bits. The
  elements of a \<open>Matrix4\<close> are binary64 numbers, so \<open>matrixElements[i] * 1000.0\<close> is
  the product rounded to binary64.
\<close>

definition getIntegerMatrixArray :: "Matrix4 \<Rightarrow> number option list" where
  "getIntegerMatrixArray matrixElements =
     fold (\<lambda>i intMatrixArray.
             array_store intMatrixArray i
               (Math_round (binary64_times1000 (ToNumber (element_at matrixElements i)))))
          [0 ..< 16] []"


section \<open>Packing the splat data into the data textures\<close>

text \<open>
  \<open>disposeTextures\<close>: every texture is disposed of and \<open>splatDataTextures\<close> becomes
  \<open>null\<close>. What the renderer does when a texture is disposed of is outside the model.
\<close>

definition disposeTextures :: "SplatMesh \<Rightarrow> SplatMesh" where
  "disposeTextures m = m\<lparr>splatDataTextures := None\<rparr>"

text \<open>
  \<open>computeTextureUpdateRegion\<close> on a start splat, which is \<open>NaN\<close> (\<open>None\<close>) when
  \<open>this.lastBuildSplatCount\<close> has two elements or more, and an end splat. All four
  results are \<open>NaN\<close> together.
\<close>

record UpdateRegion =
  dataStart :: int
  dataEnd :: int
  startRow :: int
  endRow :: int

definition computeTextureUpdateRegion ::
  "nat option \<Rightarrow> int \<Rightarrow> nat \<Rightarrow> nat \<Rightarrow> nat \<Rightarrow> nat \<Rightarrow> UpdateRegion option" where
  "computeTextureUpdateRegion startSplat endSplat textureWidth textureHeight elementsPerTexel
       elementsPerSplat =
     (case startSplat of
        None \<Rightarrow> None
      | Some start \<Rightarrow>
          (let texelsPerSplat = real elementsPerSplat / real elementsPerTexel;
               startSplatTexels = real start * texelsPerSplat;
               startRow' = \<lfloor>startSplatTexels / real textureWidth\<rfloor>;
               startRowElement = startRow' * int textureWidth * int elementsPerTexel;
               endSplatTexels = real_of_int endSplat * texelsPerSplat;
               endRow' = \<lfloor>endSplatTexels / real textureWidth\<rfloor>;
               endRowEndElement = endRow' * int textureWidth * int elementsPerTexel
                                    + int textureWidth * int elementsPerTexel
           in Some \<lparr>dataStart = startRowElement, dataEnd = endRowEndElement,
                    startRow = startRow', endRow = endRow'\<rparr>))"

text \<open>
  \<open>new paddedData.constructor(buffer, byteOffset, length)\<close>: a view of \<open>length\<close>
  elements of \<open>elementSize\<close> bytes into a buffer of \<open>arrayLength\<close> such elements. The
  constructor throws a \<open>RangeError\<close> on a negative or misaligned offset, a negative
  length, or a view that runs past the buffer.
\<close>

definition typed_array_view :: "nat \<Rightarrow> nat \<Rightarrow> int \<Rightarrow> int \<Rightarrow> error + nat \<times> nat" where
  "typed_array_view elementSize arrayLength byteOffset len =
     (if byteOffset < 0 \<or> len < 0 \<or> byteOffset mod int elementSize \<noteq> 0
         \<or> byteOffset + len * int elementSize > int (arrayLength * elementSize)
      then Inl (RangeError ''Invalid typed array view'')
      else Inr (nat byteOffset, nat len))"

text \<open>
  \<open>updateDataTexture\<close>, which touches the GL context only. \<open>elementSize\<close> and
  \<open>arrayLength\<close> describe \<open>paddedData\<close>. With a \<open>NaN\<close> region every number passed on is
  \<open>NaN\<close>, which the typed-array constructor and WebGL read as 0.
\<close>

definition updateDataTexture ::
  "SplatMesh \<Rightarrow> WebGLContext \<Rightarrow> nat \<Rightarrow> nat \<Rightarrow> nat \<times> nat \<Rightarrow> gl_handle option \<Rightarrow> nat \<Rightarrow> nat \<Rightarrow> nat
     \<Rightarrow> error + WebGLContext" where
  "updateDataTexture m gl elementSize arrayLength textureSize webglTex elementsPerTexel
       elementsPerSplat bytesPerElement =
     (let splatCount' = getSplatCount m;
          updateRegion = computeTextureUpdateRegion (array_ToNumber (lastBuildSplatCount m))
                           (int splatCount' - 1) (fst textureSize) (snd textureSize)
                           elementsPerTexel elementsPerSplat;
          viewArgs = (case updateRegion of
                        None \<Rightarrow> (0, 0)
                      | Some r \<Rightarrow> (dataStart r * int bytesPerElement, dataEnd r - dataStart r));
          updateHeight = (case updateRegion of None \<Rightarrow> 0 | Some r \<Rightarrow> endRow r - startRow r + 1);
          row = (case updateRegion of None \<Rightarrow> 0 | Some r \<Rightarrow> startRow r)
      in bindE (typed_array_view elementSize arrayLength (fst viewArgs) (snd viewArgs))
           (\<lambda>updateDataView.
              if \<not> webGLUtils m
              then Inl (TypeError ''Cannot read properties of null (reading convert)'')
              else
                (let currentTexture = TEXTURE_BINDING_2D gl;
                     gl1 = bindTexture_TEXTURE_2D gl webglTex;
                     gl2 = texSubImage2D gl1 row (fst textureSize) updateHeight updateDataView
                 in Inr (bindTexture_TEXTURE_2D gl2 currentTexture))))"

text \<open>
  The closure \<open>updateCenterColorsPaddedData\<close>, one iteration and the loop. The first
  parameter of the source is the start and is called \<open>to\<close>, the second is the end and is
  called \<open>from\<close>. The start is \<open>this.lastBuildSplatCount\<close> itself on the incremental
  path, compared and multiplied as a number.
\<close>

definition centerColors_step :: "Util \<Rightarrow> number list \<Rightarrow> 8 word list \<Rightarrow> nat \<Rightarrow> 32 word list \<Rightarrow> 32 word list" where
  "centerColors_step util centers' colors' c paddedCenterColors =
     (let colorsBase = c * 4;
          centersBase = c * 3;
          centerColorsBase = c * 4;
          p0 = paddedCenterColors[centerColorsBase := rgbaArrayToInteger util colors' colorsBase];
          p1 = p0[centerColorsBase + 1 :=
                    uintEncodedFloat util (ToNumber (element_at centers' centersBase))];
          p2 = p1[centerColorsBase + 2 :=
                    uintEncodedFloat util (ToNumber (element_at centers' (centersBase + 1)))]
      in p2[centerColorsBase + 3 :=
              uintEncodedFloat util (ToNumber (element_at centers' (centersBase + 2)))])"

definition index_range :: "nat option \<Rightarrow> nat \<Rightarrow> nat list" where
  "index_range start bound = (case start of None \<Rightarrow> [] | Some s \<Rightarrow> [s ..< bound])"

definition updateCenterColorsPaddedData ::
  "Util \<Rightarrow> nat option \<Rightarrow> nat \<Rightarrow> number list \<Rightarrow> 8 word list \<Rightarrow> 32 word list \<Rightarrow> 32 word list" where
  "updateCenterColorsPaddedData util to from centers' colors' paddedCenterColors =
     fold (centerColors_step util centers' colors') (index_range to from) paddedCenterColors"

text \<open>
  Storing into the padded covariances converts as the array's type says: a
  \<open>Float32Array\<close> keeps the number (\<open>undefined\<close> becomes \<open>NaN\<close>), a \<open>Uint16Array\<close> stores
  \<open>ToUint16\<close> of it. \<open>set\<close> stores a whole source array from index 0 and throws when
  the source is longer than the target.
\<close>

fun covariances_length :: "covariances_data \<Rightarrow> nat" where
  "covariances_length (Float32Array xs) = length xs"
| "covariances_length (Uint16Array xs) = length xs"

fun covariances_element_size :: "covariances_data \<Rightarrow> nat" where
  "covariances_element_size (Float32Array xs) = 4"
| "covariances_element_size (Uint16Array xs) = 2"

fun covariances_store :: "covariances_data \<Rightarrow> nat \<Rightarrow> number option \<Rightarrow> covariances_data" where
  "covariances_store (Float32Array xs) i v = Float32Array (xs[i := ToNumber v])"
| "covariances_store (Uint16Array xs) i v = Uint16Array (xs[i := ToUint16 (ToNumber v)])"

definition covariances_set :: "covariances_data \<Rightarrow> number list \<Rightarrow> error + covariances_data" where
  "covariances_set target source =
     (if length source > covariances_length target
      then Inl (RangeError ''offset is out of bounds'')
      else Inr (fold (\<lambda>i acc. covariances_store acc i (element_at source i))
                     [0 ..< length source] target))"

definition new_covariances_data :: "bool \<Rightarrow> nat \<Rightarrow> covariances_data" where
  "new_covariances_data halfPrecision n =
     (if halfPrecision then Uint16Array (replicate n 0) else Float32Array (replicate n (Num 0)))"

text \<open>
  The transform-index loop. An element of the index map that is missing is stored as 0.
  On the incremental path the loop variable starts as \<open>this.lastBuildSplatCount\<close>
  itself: as a property key a one-element array names the index of its element, and
  the empty array names no index, so that first iteration stores nothing.
\<close>

definition transformIndex_step :: "nat option list \<Rightarrow> nat \<Rightarrow> 32 word list \<Rightarrow> 32 word list" where
  "transformIndex_step sceneIndexes c paddedTransformIndexes =
     paddedTransformIndexes[c :=
       (case element_at sceneIndexes c of Some (Some s) \<Rightarrow> word_of_nat s | _ \<Rightarrow> 0)]"

definition incremental_transformIndex_range :: "nat list \<Rightarrow> nat \<Rightarrow> nat list" where
  "incremental_transformIndex_range lastBuild splatCount' =
     (if lastBuild = [] then [1 ..< splatCount']
      else index_range (array_ToNumber lastBuild) splatCount')"

text \<open>Assignments to the uniforms of \<open>this.material\<close>; they throw when there are none.\<close>

definition with_uniforms :: "SplatMesh \<Rightarrow> (Uniforms \<Rightarrow> Uniforms) \<Rightarrow> error + SplatMesh" where
  "with_uniforms m f =
     (case material_mesh m of
        Some (ShaderMaterial u) \<Rightarrow> Inr (m\<lparr>material_mesh := Some (ShaderMaterial (f u))\<rparr>)
      | _ \<Rightarrow> Inl (TypeError ''Cannot read properties of undefined (reading covariancesTexture)''))"

definition with_transform_uniforms :: "SplatMesh \<Rightarrow> (Uniforms \<Rightarrow> Uniforms) \<Rightarrow> error + SplatMesh" where
  "with_transform_uniforms m f =
     (case material_mesh m of
        Some (ShaderMaterial u) \<Rightarrow>
          if hasTransformIndexesUniforms u
          then Inr (m\<lparr>material_mesh := Some (ShaderMaterial (f u))\<rparr>)
          else Inl (TypeError ''Cannot set properties of undefined (setting value)'')
      | _ \<Rightarrow> Inl (TypeError ''Cannot read properties of undefined (reading transformIndexesTexture)''))"

text \<open>
  A function that changes the mesh returns the outcome and the mesh as the call left
  it; after a throw that is the mesh at the throwing statement. The outer \<open>option\<close> of
  \<open>uploadSplatDataToTextures\<close> is \<open>None\<close> when a texture size loop does not end.
\<close>

type_synonym outcome = "(error + unit) \<times> SplatMesh"

definition new_texture :: DataTexture where
  "new_texture = \<lparr>needsUpdate = True, webglTexture = None\<rparr>"

text \<open>The full rebuild: the \<open>if (!sinceLastBuild)\<close> branch.\<close>

definition upload_transformIndexes :: "SplatMesh \<Rightarrow> outcome option" where
  "upload_transformIndexes m =
     (if \<not> dynamicMode m then Some (Inr (), m)
      else
        Option.bind (computeDataTextureSize (getMaxSplatCount m) 1 4) (\<lambda>transformIndexesTexSize.
          let paddedTransformIndexes =
                fold (transformIndex_step (globalSplatIndexToSceneIndexMap m))
                     [0 ..< getSplatCount m]
                     (replicate (fst transformIndexesTexSize * snd transformIndexesTexSize * 1) 0)
          in case with_transform_uniforms m
                    (\<lambda>u. u\<lparr>transformIndexesTexture := Some TransformIndexesTexture,
                            transformIndexesTextureSize := transformIndexesTexSize,
                            uniformsNeedUpdate := True\<rparr>) of
               Inl e \<Rightarrow> Some (Inl e, m)
             | Inr m1 \<Rightarrow>
                 Some (Inr (),
                   m1\<lparr>splatDataTextures :=
                        map_option (\<lambda>t. t\<lparr>tansformIndexes :=
                            Some \<lparr>data = paddedTransformIndexes, texture = new_texture,
                                  texSize = transformIndexesTexSize\<rparr>\<rparr>)
                          (splatDataTextures m1)\<rparr>)))"

definition upload_full :: "Util \<Rightarrow> SplatMesh \<Rightarrow> outcome option" where
  "upload_full util m0 =
     (let maxSplatCount' = getMaxSplatCount m0;
          splatCount' = getSplatCount m0;
          m = disposeTextures m0
      in case fillSplatDataArrays m
                (Some (replicate (maxSplatCount' * 6) (Num 0)))
                (Some (replicate (maxSplatCount' * 3) (Num 0)))
                (Some (replicate (maxSplatCount' * 4) 0)) None False False of
           Inl e \<Rightarrow> Some (Inl e, m)
         | Inr (covs, cens, cols) \<Rightarrow>
         (let covariances' = (case covs of Some a \<Rightarrow> a | None \<Rightarrow> []);
              centers' = (case cens of Some a \<Rightarrow> a | None \<Rightarrow> []);
              colors' = (case cols of Some a \<Rightarrow> a | None \<Rightarrow> [])
          in
          Option.bind (computeDataTextureSize maxSplatCount' 2 6) (\<lambda>covTexSize.
            case covariances_set
                   (new_covariances_data (halfPrecisionCovariancesOnGPU m)
                      (fst covTexSize * snd covTexSize * 2)) covariances' of
              Inl e \<Rightarrow> Some (Inl e, m)
            | Inr paddedCovariances \<Rightarrow>
            (case with_uniforms m
                    (\<lambda>u. u\<lparr>covariancesTexture := Some CovariancesTexture,
                            covariancesTextureSize := covTexSize\<rparr>) of
               Inl e \<Rightarrow> Some (Inl e, m)
             | Inr m1 \<Rightarrow>
             Option.bind (computeDataTextureSize maxSplatCount' 4 4) (\<lambda>centersColsTexSize.
               let paddedCentersCols =
                     updateCenterColorsPaddedData util (Some 0) splatCount' centers' colors'
                       (replicate (fst centersColsTexSize * snd centersColsTexSize * 4) 0)
               in case with_uniforms m1
                         (\<lambda>u. u\<lparr>centersColorsTexture := Some CentersColorsTexture,
                                 centersColorsTextureSize := centersColsTexSize,
                                 uniformsNeedUpdate := True\<rparr>) of
                    Inl e \<Rightarrow> Some (Inl e, m1)
                  | Inr m2 \<Rightarrow>
                      upload_transformIndexes
                        (m2\<lparr>splatDataTextures := Some
                           \<lparr>baseData = Some \<lparr>covariances = covariances', centers = centers',
                                             colors = colors'\<rparr>,
                            covariances_entry = Some \<lparr>data = paddedCovariances,
                                                      texture = new_texture,
                                                      texSize = covTexSize\<rparr>,
                            centerColors = Some \<lparr>data = paddedCentersCols,
                                                 texture = new_texture,
                                                 texSize = centersColsTexSize\<rparr>,
                            tansformIndexes = None\<rparr>\<rparr>))))))"

text \<open>
  The incremental update: the \<open>else\<close> branch. After a data array is updated the
  texture is either marked \<open>needsUpdate\<close> (the renderer has no GL texture for it yet) or
  the changed rows are uploaded with \<open>updateDataTexture\<close>; \<open>this.renderer\<close> is read
  first, and that throws when it is undefined.
\<close>

definition refresh_texture ::
  "SplatMesh \<Rightarrow> DataTexture \<Rightarrow> nat \<Rightarrow> nat \<Rightarrow> nat \<times> nat \<Rightarrow> nat \<Rightarrow> nat \<Rightarrow> nat
     \<Rightarrow> error + DataTexture \<times> SplatMesh" where
  "refresh_texture m tex elementSize arrayLength textureSize elementsPerTexel elementsPerSplat
       bytesPerElement =
     (case renderer m of
        None \<Rightarrow> Inl (TypeError ''Cannot read properties of undefined (reading properties)'')
      | Some gl \<Rightarrow>
          (case webglTexture tex of
             None \<Rightarrow> Inr (tex\<lparr>needsUpdate := True\<rparr>, m)
           | Some h \<Rightarrow>
               bindE (updateDataTexture m gl elementSize arrayLength textureSize (Some h)
                        elementsPerTexel elementsPerSplat bytesPerElement)
                     (\<lambda>gl'. Inr (tex, m\<lparr>renderer := Some gl'\<rparr>))))"

definition set_entries :: "SplatMesh \<Rightarrow> (SplatDataTextures \<Rightarrow> SplatDataTextures) \<Rightarrow> SplatMesh" where
  "set_entries m f = m\<lparr>splatDataTextures := map_option f (splatDataTextures m)\<rparr>"

definition update_transformIndexes :: "SplatMesh \<Rightarrow> SplatDataTextures \<Rightarrow> outcome" where
  "update_transformIndexes m t =
     (if \<not> dynamicMode m then (Inr (), m)
      else
        (case tansformIndexes t of
           None \<Rightarrow> (Inl (TypeError ''Cannot read properties of undefined (reading data)''), m)
         | Some transformIndexesTexDesc \<Rightarrow>
             (let paddedTransformIndexes =
                    fold (transformIndex_step (globalSplatIndexToSceneIndexMap m))
                         (incremental_transformIndex_range (lastBuildSplatCount m) (getSplatCount m))
                         (data transformIndexesTexDesc);
                  m1 = set_entries m (\<lambda>t'. t'\<lparr>tansformIndexes :=
                         Some (transformIndexesTexDesc\<lparr>data := paddedTransformIndexes\<rparr>)\<rparr>)
              in case refresh_texture m1 (texture transformIndexesTexDesc) 4
                        (length paddedTransformIndexes) (texSize transformIndexesTexDesc) 1 1 1 of
                   Inl e \<Rightarrow> (Inl e, m1)
                 | Inr (tex, m2) \<Rightarrow>
                     (Inr (), set_entries m2 (\<lambda>t'. t'\<lparr>tansformIndexes :=
                         Some (transformIndexesTexDesc\<lparr>data := paddedTransformIndexes,
                                                      texture := tex\<rparr>)\<rparr>)))))"

definition update_centerColors :: "Util \<Rightarrow> SplatMesh \<Rightarrow> SplatDataTextures \<Rightarrow> BaseData \<Rightarrow> outcome" where
  "update_centerColors util m t base =
     (case centerColors t of
        None \<Rightarrow> (Inl (TypeError ''Cannot read properties of undefined (reading data)''), m)
      | Some centerColorsTextureDescriptor \<Rightarrow>
          (let paddedCenterColors =
                 updateCenterColorsPaddedData util (array_ToNumber (lastBuildSplatCount m))
                   (getSplatCount m) (centers base) (colors base)
                   (data centerColorsTextureDescriptor);
               m1 = set_entries m (\<lambda>t'. t'\<lparr>centerColors :=
                      Some (centerColorsTextureDescriptor\<lparr>data := paddedCenterColors\<rparr>)\<rparr>)
           in case refresh_texture m1 (texture centerColorsTextureDescriptor) 4
                     (length paddedCenterColors) (texSize centerColorsTextureDescriptor) 4 4 4 of
                Inl e \<Rightarrow> (Inl e, m1)
              | Inr (tex, m2) \<Rightarrow>
                  update_transformIndexes
                    (set_entries m2 (\<lambda>t'. t'\<lparr>centerColors :=
                       Some (centerColorsTextureDescriptor\<lparr>data := paddedCenterColors,
                                                          texture := tex\<rparr>)\<rparr>)) t))"

definition upload_incremental :: "Util \<Rightarrow> SplatMesh \<Rightarrow> outcome" where
  "upload_incremental util m =
     (case splatDataTextures m of
        None \<Rightarrow> (Inl (TypeError ''Cannot read properties of null (reading baseData)''), m)
      | Some t \<Rightarrow>
        (case baseData t of
           None \<Rightarrow> (Inl (TypeError ''Cannot read properties of undefined (reading covariances)''), m)
         | Some base0 \<Rightarrow>
           (case fillSplatDataArrays m (Some (covariances base0)) (Some (centers base0))
                   (Some (colors base0)) None True False of
              Inl e \<Rightarrow> (Inl e, m)
            | Inr (covs, cens, cols) \<Rightarrow>
              (let base = \<lparr>covariances = (case covs of Some a \<Rightarrow> a | None \<Rightarrow> covariances base0),
                           centers = (case cens of Some a \<Rightarrow> a | None \<Rightarrow> centers base0),
                           colors = (case cols of Some a \<Rightarrow> a | None \<Rightarrow> colors base0)\<rparr>;
                   m1 = set_entries m (\<lambda>t'. t'\<lparr>baseData := Some base\<rparr>)
               in case covariances_entry t of
                    None \<Rightarrow> (Inl (TypeError ''Cannot read properties of undefined (reading data)''), m1)
                  | Some covariancesTextureDescriptor \<Rightarrow>
                    (let covarancesStartSplat =
                           map_option (\<lambda>n. n * 6) (array_ToNumber (lastBuildSplatCount m));
                         covariancesEndSplat = getSplatCount m * 6;
                         paddedCovariances =
                           fold (\<lambda>i acc. covariances_store acc i (element_at (covariances base) i))
                                (index_range covarancesStartSplat covariancesEndSplat)
                                (data covariancesTextureDescriptor);
                         m2 = set_entries m1 (\<lambda>t'. t'\<lparr>covariances_entry :=
                                Some (covariancesTextureDescriptor\<lparr>data := paddedCovariances\<rparr>)\<rparr>)
                     in case refresh_texture m2 (texture covariancesTextureDescriptor)
                               (covariances_element_size paddedCovariances)
                               (covariances_length paddedCovariances)
                               (texSize covariancesTextureDescriptor) 2 6
                               (if halfPrecisionCovariancesOnGPU m then 2 else 4) of
                          Inl e \<Rightarrow> (Inl e, m2)
                        | Inr (tex, m3) \<Rightarrow>
                            update_centerColors util
                              (set_entries m3 (\<lambda>t'. t'\<lparr>covariances_entry :=
                                 Some (covariancesTextureDescriptor\<lparr>data := paddedCovariances,
                                                                    texture := tex\<rparr>)\<rparr>))
                              t base)))))"

definition uploadSplatDataToTextures :: "Util \<Rightarrow> SplatMesh \<Rightarrow> bool \<Rightarrow> outcome option" where
  "uploadSplatDataToTextures util m sinceLastBuild =
     (case checkForMultiSceneUpdateCondition m sinceLastBuild
             ''uploadSplatDataToTextures'' ''sinceLastBuild'' of
        Inl e \<Rightarrow> Some (Inl e, m)
      | Inr _ \<Rightarrow>
          if \<not> sinceLastBuild then upload_full util m else Some (upload_incremental util m))"

section \<open>The distances pipeline\<close>

text \<open>
  \<open>updateGPUCentersBufferForDistancesComputation\<close>. The source centers are the integer
  centers padded to four, or the float centers. In a full refresh they are copied into
  a zeroed array of \<open>maxSplatCount * 16\<close> elements first.
\<close>

definition updateGPUCentersBufferForDistancesComputation :: "SplatMesh \<Rightarrow> bool \<Rightarrow> outcome" where
  "updateGPUCentersBufferForDistancesComputation m sinceLastBuild =
     (case checkForMultiSceneUpdateCondition m sinceLastBuild
             ''updateGPUCentersBufferForDistancesComputation'' ''sinceLastBuild'' of
        Inl e \<Rightarrow> (Inl e, m)
      | Inr _ \<Rightarrow>
        (case renderer m of
           None \<Rightarrow> (Inr (), m)
         | Some gl \<Rightarrow>
           (let currentVao = VERTEX_ARRAY_BINDING gl;
                gl1 = bindVertexArray gl (vao (distancesTransformFeedback m));
                subBufferOffset =
                  (if sinceLastBuild
                   then (case array_ToNumber (lastBuildSplatCount m) of
                           None \<Rightarrow> 0 | Some n \<Rightarrow> n * 16)
                   else 0)
            in case (if integerBasedDistancesComputation m
                     then bindE (getIntegerCenters m True sinceLastBuild) (\<lambda>a. Inr (map I32 a))
                     else bindE (getFloatCenters m False sinceLastBuild) (\<lambda>a. Inr (map F32 a))) of
                 Inl e \<Rightarrow> (Inl e, m\<lparr>renderer := Some gl1\<rparr>)
               | Inr srcCenters \<Rightarrow>
                 (let gl2 = bindBuffer_ARRAY_BUFFER gl1 (centersBuffer (distancesTransformFeedback m))
                  in if \<not> sinceLastBuild \<and> length srcCenters > getMaxSplatCount m * 16
                     then (Inl (RangeError ''offset is out of bounds''), m\<lparr>renderer := Some gl2\<rparr>)
                     else
                       (let gl3 =
                              (if sinceLastBuild
                               then bufferSubData_ARRAY_BUFFER gl2 subBufferOffset srcCenters
                               else bufferData_ARRAY_BUFFER gl2
                                      (srcCenters @
                                       replicate (getMaxSplatCount m * 16 - length srcCenters)
                                         (if integerBasedDistancesComputation m
                                          then I32 0 else F32 (Num 0))));
                            gl4 = bindBuffer_ARRAY_BUFFER gl3 None;
                            gl5 = (case currentVao of
                                     None \<Rightarrow> gl4
                                   | Some v \<Rightarrow> bindVertexArray gl4 currentVao)
                        in (Inr (), m\<lparr>renderer := Some gl5\<rparr>))))))"

text \<open>
  The two disposal functions of the pipeline, statement by statement. In the first
  \<open>if\<close> of \<open>disposeDistancesComputationGPUBufferResources\<close> the field is set to \<open>null\<close>
  before \<open>gl.deleteBuffer\<close> reads it.
\<close>

definition disposeDistancesComputationGPUBufferResources :: "SplatMesh \<Rightarrow> SplatMesh" where
  "disposeDistancesComputationGPUBufferResources m =
     (case renderer m of
        None \<Rightarrow> m
      | Some gl \<Rightarrow>
          (let (tf1, gl1) =
                 (case centersBuffer (distancesTransformFeedback m) of
                    None \<Rightarrow> (distancesTransformFeedback m, gl)
                  | Some b \<Rightarrow>
                      (let tf = (distancesTransformFeedback m)\<lparr>centersBuffer := None\<rparr>
                       in (tf, deleteBuffer gl (centersBuffer tf))));
               (tf2, gl2) =
                 (case outDistancesBuffer tf1 of
                    None \<Rightarrow> (tf1, gl1)
                  | Some b \<Rightarrow>
                      (tf1\<lparr>outDistancesBuffer := None\<rparr>,
                       deleteBuffer gl1 (outDistancesBuffer tf1)))
           in m\<lparr>distancesTransformFeedback := tf2, renderer := Some gl2\<rparr>))"

definition disposeDistancesComputationGPUResources :: "SplatMesh \<Rightarrow> SplatMesh" where
  "disposeDistancesComputationGPUResources m =
     (case renderer m of
        None \<Rightarrow> m
      | Some gl \<Rightarrow>
          (let tf = distancesTransformFeedback m;
               (tf1, gl1) =
                 (case vao tf of
                    None \<Rightarrow> (tf, gl)
                  | Some v \<Rightarrow> (tf\<lparr>vao := None\<rparr>, deleteVertexArray gl (vao tf)));
               (tf2, gl2) =
                 (case program tf1 of
                    None \<Rightarrow> (tf1, gl1)
                  | Some p \<Rightarrow>
                      (tf1\<lparr>program := None, vertexShader := None, fragmentShader := None\<rparr>,
                       deleteShader (deleteShader (deleteProgram gl1 (program tf1))
                                       (vertexShader tf1)) (fragmentShader tf1)));
               m1 = disposeDistancesComputationGPUBufferResources
                      (m\<lparr>distancesTransformFeedback := tf2, renderer := Some gl2\<rparr>);
               tf3 = distancesTransformFeedback m1
           in case renderer m1 of
                None \<Rightarrow> m1
              | Some gl3 \<Rightarrow>
                  (case id_feedback tf3 of
                     None \<Rightarrow> m1
                   | Some t \<Rightarrow>
                       m1\<lparr>distancesTransformFeedback := tf3\<lparr>id_feedback := None\<rparr>,
                          renderer := Some (deleteTransformFeedback gl3 (id_feedback tf3))\<rparr>)))"

text \<open>
  \<open>dispose\<close> and the other three disposers. What Three.js does when a geometry or a
  material is disposed of is outside the model.
\<close>

definition disposeMeshData :: "SplatMesh \<Rightarrow> SplatMesh" where
  "disposeMeshData m =
     (let m1 = (case geometry_mesh m of
                  Some (SplatGeometry n) \<Rightarrow> m\<lparr>geometry_mesh := None\<rparr>
                | _ \<Rightarrow> m)
      in case material_mesh m1 of
           Some mat \<Rightarrow> m1\<lparr>material_mesh := None\<rparr>
         | None \<Rightarrow> m1)"

definition disposeSplatTree :: "SplatMesh \<Rightarrow> SplatMesh" where
  "disposeSplatTree m = m\<lparr>splatTree := None\<rparr>"

definition dispose :: "SplatMesh \<Rightarrow> SplatMesh" where
  "dispose m =
     (let m1 = disposeSplatTree (disposeTextures (disposeMeshData m))
      in if enableDistancesComputationOnGPU m1
         then disposeDistancesComputationGPUResources m1
         else m1)"

text \<open>The message of the error that \<open>checkForMultiSceneUpdateCondition\<close> throws.\<close>

definition multi_scene_error :: "string \<Rightarrow> error" where
  "multi_scene_error functionName =
     Error (functionName @ ''() -> '' @ [CHR 0x27] @ ''sinceLastBuild'' @ [CHR 0x27] @
            '' cannot be true if splat mesh has more than one scene.'')"

section \<open>A build followed by an incremental build\<close>




section \<open>Concrete meshes\<close>

definition empty_context :: WebGLContext where
  "empty_context =
     \<lparr>bufferStore = Map.empty, vertexArrays = {}, programs = {}, shaders = {},
      transformFeedbacks = {}, VERTEX_ARRAY_BINDING = None, ARRAY_BUFFER_BINDING = None,
      TEXTURE_BINDING_2D = None, texSubImage2D_calls = []\<rparr>"

definition initial_feedback :: DistancesTransformFeedback where
  "initial_feedback =
     \<lparr>id_feedback = None, vertexShader = None, fragmentShader = None, program = None,
      centersBuffer = None, transformIndexesBuffer = None, outDistancesBuffer = None,
      vao = None\<rparr>"

definition identity_matrix :: Matrix4 where
  "identity_matrix =
     [Num 1, Num 0, Num 0, Num 0, Num 0, Num 1, Num 0, Num 0,
      Num 0, Num 0, Num 1, Num 0, Num 0, Num 0, Num 0, Num 1]"

text \<open>
  A matrix whose first element is the binary64 number nearest to 0.0045; the others
  are zero.
\<close>

definition half_way_matrix :: Matrix4 where
  "half_way_matrix = Num (5188146770730811 / 2 ^ 60) # replicate 15 (Num 0)"

text \<open>
  A mesh as the constructor leaves it (dynamic mode, GPU distances enabled, float
  distances), given the scenes \<open>buildScenes\<close> makes of the source buffers.
\<close>

definition constructed_mesh :: "SplatBuffer list \<Rightarrow> SplatMesh" where
  "constructed_mesh bufs =
     \<lparr>renderer = None, webGLUtils = False, halfPrecisionCovariancesOnGPU = False,
      dynamicMode = True, enableDistancesComputationOnGPU = True,
      integerBasedDistancesComputation = False,
      scenes = map (\<lambda>b. \<lparr>splatBuffer = b, transform = identity_matrix\<rparr>) bufs,
      splatTree = None, geometry_mesh = Some DummyGeometry,
      material_mesh = Some DummyMaterial,
      splatDataTextures = Some \<lparr>baseData = None, covariances_entry = None,
                                 centerColors = None, tansformIndexes = None\<rparr>,
      distancesTransformFeedback = initial_feedback,
      globalSplatIndexToLocalSplatIndexMap = [], globalSplatIndexToSceneIndexMap = [],
      lastBuildSplatCount = [], lastBuildMaxSplatCount = 0, lastBuildSceneCount = 0\<rparr>"

text \<open>
  A context in which the distances pipeline holds vertex array 1, program 2, vertex
  shader 3, fragment shader 4, buffers 5 (centers), 6 (transform indexes) and 7 (output
  distances) and transform feedback 8, and the mesh fields as
  \<open>setupDistancesComputationTransformFeedback\<close> assigns them in dynamic mode: its two
  shader assignments both go to \<open>vertexShader\<close>, the second with the fragment shader.
\<close>

definition pipeline_context :: WebGLContext where
  "pipeline_context =
     empty_context
       \<lparr>bufferStore := [5 \<mapsto> [], 6 \<mapsto> [], 7 \<mapsto> []], vertexArrays := {1}, programs := {2},
        shaders := {3, 4}, transformFeedbacks := {8}\<rparr>"

definition pipeline_feedback :: DistancesTransformFeedback where
  "pipeline_feedback =
     \<lparr>id_feedback = Some 8, vertexShader = Some 4, fragmentShader = None, program = Some 2,
      centersBuffer = Some 5, transformIndexesBuffer = Some 6, outDistancesBuffer = Some 7,
      vao = Some 1\<rparr>"

definition pipeline_mesh :: "SplatBuffer list \<Rightarrow> SplatMesh" where
  "pipeline_mesh bufs =
     (constructed_mesh bufs)
       \<lparr>renderer := Some pipeline_context, webGLUtils := True,
        distancesTransformFeedback := pipeline_feedback\<rparr>"

definition demo_util :: Util where
  "demo_util = \<lparr>uintEncodedFloat = ToInt32, rgbaToInteger = (\<lambda>r g b a. 0)\<rparr>"

text \<open>A source buffer with one splat, whose center is (2147484, 2147484, 2147484).\<close>

definition far_buffer :: SplatBuffer where
  "far_buffer =
     \<lparr>splatCount = 1, maxSplatCount = 1,
      centerComponent = (\<lambda>t i k. Num 2147484),
      covarianceComponent = (\<lambda>t h i k. Num 1),
      colorComponent = (\<lambda>t i k. 255)\<rparr>"






section \<open>Properties of the index maps\<close>

lemma index_inner_fold:
  "length lm = t \<Longrightarrow> length sm = t \<Longrightarrow>
   fold (index_inner_step s) [a ..< a + n] (lm, sm, t) =
     (lm @ map Some [a ..< a + n], sm @ replicate n (Some s), t + n)"
proof (induction n arbitrary: lm sm t a)
  case 0
  then show ?case by simp
next
  case (Suc n)
  have "[a ..< a + Suc n] = a # [Suc a ..< Suc a + n]"
    by (simp add: upt_conv_Cons)
  then show ?case
    using Suc.prems Suc.IH[of "lm @ [Some a]" "Suc t" "sm @ [Some s]" "Suc a"]
    by (simp add: index_inner_step_def array_store_def replicate_app_Cons_same)
qed

lemma index_outer_fold:
  "length lm = t \<Longrightarrow> length sm = t \<Longrightarrow>
   fold (index_outer_step (pre @ ss)) [length pre ..< length pre + length ss] (lm, sm, t) =
     (lm @ concat (map (\<lambda>b. map Some [0 ..< maxSplatCount b]) ss),
      sm @ concat (map (\<lambda>(s, b). replicate (maxSplatCount b) (Some s)) (enumerate (length pre) ss)),
      t + sum_list (map maxSplatCount ss))"
proof (induction ss arbitrary: lm sm t pre)
  case Nil
  then show ?case by simp
next
  case (Cons b ss)
  let ?k = "length pre"
  have upt: "[?k ..< ?k + length (b # ss)] = ?k # [length (pre @ [b]) ..< length (pre @ [b]) + length ss]"
    using upt_conv_Cons[of ?k "?k + length (b # ss)"] by simp
  have step: "index_outer_step (pre @ b # ss) ?k (lm, sm, t) =
      (lm @ map Some [0 ..< maxSplatCount b], sm @ replicate (maxSplatCount b) (Some ?k),
       t + maxSplatCount b)"
    using index_inner_fold[of lm t sm ?k 0 "maxSplatCount b"] Cons.prems(1,2)
    by (simp add: index_outer_step_def getMaxSplatCount_buffer_def)
  have IH: "fold (index_outer_step ((pre @ [b]) @ ss))
       [length (pre @ [b]) ..< length (pre @ [b]) + length ss]
       (lm @ map Some [0 ..< maxSplatCount b], sm @ replicate (maxSplatCount b) (Some ?k),
        t + maxSplatCount b) =
     ((lm @ map Some [0 ..< maxSplatCount b]) @ concat (map (\<lambda>b. map Some [0 ..< maxSplatCount b]) ss),
      (sm @ replicate (maxSplatCount b) (Some ?k)) @
        concat (map (\<lambda>(s, b). replicate (maxSplatCount b) (Some s)) (enumerate (length (pre @ [b])) ss)),
      (t + maxSplatCount b) + sum_list (map maxSplatCount ss))"
    by (rule Cons.IH) (use Cons.prems in simp_all)
  show ?case
    unfolding upt using IH by (simp add: step add.assoc)
qed

lemma buildSplatIndexMaps_eq:
  "buildSplatIndexMaps bufs =
     \<lparr>localSplatIndexMap = concat (map (\<lambda>b. map Some [0 ..< maxSplatCount b]) bufs),
      sceneIndexMap = concat (map (\<lambda>(s, b). replicate (maxSplatCount b) (Some s)) (enumerate 0 bufs))\<rparr>"
  using index_outer_fold[of "[]" 0 "[]" "[]" bufs]
  by (simp add: buildSplatIndexMaps_def)

lemma zip_concat_blocks:
  "zip (concat (map (\<lambda>(s, b). replicate (maxSplatCount b) (Some s)) (enumerate k bufs)))
       (concat (map (\<lambda>b. map Some [0 ..< maxSplatCount b]) bufs)) =
   concat (map (\<lambda>(s, b). map (\<lambda>i. (Some s, Some i)) [0 ..< maxSplatCount b]) (enumerate k bufs))"
proof (induction bufs arbitrary: k)
  case Nil then show ?case by simp
next
  case (Cons b bufs)
  have "zip (replicate (maxSplatCount b) (Some k)) (map Some [0 ..< maxSplatCount b]) =
        map (\<lambda>i. (Some k, Some i)) [0 ..< maxSplatCount b]"
    by (simp add: list_eq_iff_nth_eq)
  then show ?case using Cons.IH[of "Suc k"] by simp
qed

lemma filter_blocks:
  "k \<le> s \<Longrightarrow> s < k + length bufs \<Longrightarrow>
   filter (\<lambda>p. fst p = Some s)
     (concat (map (\<lambda>(s, b). map (\<lambda>i. (Some s, Some i)) [0 ..< maxSplatCount b]) (enumerate k bufs))) =
   map (\<lambda>i. (Some s, Some i)) [0 ..< maxSplatCount (bufs ! (s - k))]"
proof (induction bufs arbitrary: k)
  case Nil then show ?case by simp
next
  case (Cons b bufs)
  show ?case
  proof (cases "s = k")
    case True
    have "filter (\<lambda>p. fst p = Some k)
     (concat (map (\<lambda>(s, b). map (\<lambda>i. (Some s, Some i)) [0 ..< maxSplatCount b]) (enumerate (Suc k) bufs))) = []"
      by (auto simp: filter_empty_conv in_set_enumerate_eq)
    with True show ?thesis by (simp add: filter_map comp_def)
  next
    case False
    then have k: "Suc k \<le> s" "s < Suc k + length bufs" using Cons.prems by auto
    then obtain d where d: "s - k = Suc d" "s - Suc k = d" by (metis Suc_diff_le diff_Suc_Suc)
    from Cons.IH[OF k] False d show ?thesis
      by (simp add: filter_map comp_def)
  qed
qed


lemma length_scene_blocks:
  "length (concat (map (\<lambda>(s, b). replicate (maxSplatCount b) (Some s)) (enumerate k bufs))) =
   sum_list (map maxSplatCount bufs)"
  by (induction bufs arbitrary: k) simp_all

lemma length_local_blocks:
  "length (concat (map (\<lambda>b. map Some [0 ..< maxSplatCount b]) bufs)) =
   sum_list (map maxSplatCount bufs)"
  by (induction bufs) simp_all

text \<open>
  C1. For every ordered list of source buffers, \<open>buildSplatIndexMaps\<close> appends the
  pair (scene \<open>s\<close>, local index \<open>i\<close>) at the next global slot, for each scene in
  order and each \<open>i\<close> below that scene's maximum splat count. Hence the two maps have
  the same length, scene \<open>s\<close> owns exactly as many global indices as its maximum splat
  count, and the local indices at those slots are \<open>0, 1, ...\<close> up to that count, in
  order. With maximum counts 500 and 300, global index 650 is local index 150 of scene 1.
\<close>

theorem buildSplatIndexMaps_layout:
  fixes splatBuffers :: "SplatBuffer list"
  defines "maps \<equiv> buildSplatIndexMaps splatBuffers"
  shows
    "zip (sceneIndexMap maps) (localSplatIndexMap maps) =
       concat (map (\<lambda>(s, b). map (\<lambda>i. (Some s, Some i)) [0 ..< getMaxSplatCount_buffer b])
                   (enumerate 0 splatBuffers))
     \<and> length (sceneIndexMap maps) = length (localSplatIndexMap maps)
     \<and> (\<forall>s < length splatBuffers.
          length (filter (\<lambda>x. x = Some s) (sceneIndexMap maps)) =
            getMaxSplatCount_buffer (splatBuffers ! s)
        \<and> map snd (filter (\<lambda>p. fst p = Some s) (zip (sceneIndexMap maps) (localSplatIndexMap maps))) =
            map Some [0 ..< getMaxSplatCount_buffer (splatBuffers ! s)])
     \<and> (\<forall>b0 b1. splatBuffers = [b0, b1] \<and> getMaxSplatCount_buffer b0 = 500 \<and>
            getMaxSplatCount_buffer b1 = 300 \<longrightarrow>
          sceneIndexMap maps ! 650 = Some 1 \<and> localSplatIndexMap maps ! 650 = Some 150)"
proof -
  let ?blocks = "concat (map (\<lambda>(s, b). map (\<lambda>i. (Some s, Some i)) [0 ..< maxSplatCount b])
                   (enumerate 0 splatBuffers))"
  have sm: "sceneIndexMap maps =
      concat (map (\<lambda>(s, b). replicate (maxSplatCount b) (Some s)) (enumerate 0 splatBuffers))"
    and lm: "localSplatIndexMap maps =
      concat (map (\<lambda>b. map Some [0 ..< maxSplatCount b]) splatBuffers)"
    by (simp_all add: maps_def buildSplatIndexMaps_eq)
  have z: "zip (sceneIndexMap maps) (localSplatIndexMap maps) = ?blocks"
    unfolding sm lm by (rule zip_concat_blocks)
  have len: "length (sceneIndexMap maps) = length (localSplatIndexMap maps)"
    unfolding sm lm
    by (simp add: length_scene_blocks length_local_blocks)
  have per: "map snd (filter (\<lambda>p. fst p = Some s) (zip (sceneIndexMap maps) (localSplatIndexMap maps))) =
            map Some [0 ..< maxSplatCount (splatBuffers ! s)]"
    if "s < length splatBuffers" for s
    using filter_blocks[of 0 s splatBuffers] that by (simp add: z comp_def)
  have cnt: "length (filter (\<lambda>x. x = Some s) (sceneIndexMap maps)) = maxSplatCount (splatBuffers ! s)"
    if "s < length splatBuffers" for s
  proof -
    have "map fst (zip (sceneIndexMap maps) (localSplatIndexMap maps)) = sceneIndexMap maps"
      using len by simp
    then have "filter (\<lambda>x. x = Some s) (sceneIndexMap maps) =
          map fst (filter (\<lambda>p. fst p = Some s) (zip (sceneIndexMap maps) (localSplatIndexMap maps)))"
      by (metis (mono_tags, lifting) comp_apply filter_cong filter_map)
    then have "length (filter (\<lambda>x. x = Some s) (sceneIndexMap maps)) =
          length (filter (\<lambda>p. fst p = Some s) ?blocks)"
      by (simp only: z length_map)
    then show ?thesis using filter_blocks[of 0 s splatBuffers] that by simp
  qed
  have inst: "sceneIndexMap maps ! 650 = Some 1 \<and> localSplatIndexMap maps ! 650 = Some 150"
    if "splatBuffers = [b0, b1]" "maxSplatCount b0 = 500" "maxSplatCount b1 = 300" for b0 b1
    unfolding sm lm using that by (simp add: nth_append)
  show ?thesis
    using z len per cnt inst by (simp add: getMaxSplatCount_buffer_def)
qed

theorem buildSplatIndexMaps_layout_witness:
  "(1::nat) < length [demo_buffer 500, demo_buffer 300]
   \<and> length (filter (\<lambda>x. x = Some 1)
        (sceneIndexMap (buildSplatIndexMaps [demo_buffer 500, demo_buffer 300]))) = 300
   \<and> sceneIndexMap (buildSplatIndexMaps [demo_buffer 500, demo_buffer 300]) ! 650 = Some 1
   \<and> localSplatIndexMap (buildSplatIndexMaps [demo_buffer 500, demo_buffer 300]) ! 650 = Some 150"
proof -
  have m: "getMaxSplatCount_buffer (demo_buffer 500) = 500"
          "getMaxSplatCount_buffer (demo_buffer 300) = 300"
    by (simp_all add: getMaxSplatCount_buffer_def demo_buffer_def)
  from buildSplatIndexMaps_layout[of "[demo_buffer 500, demo_buffer 300]"] m
  show ?thesis by (simp del: One_nat_def)
qed

section \<open>Properties of the texture size\<close>

lemma texture_height_loop_terminates:
  "0 < ept \<Longrightarrow> 0 < x \<Longrightarrow> 0 < y \<Longrightarrow>
   \<exists>k. texture_height_loop m ept eps x y = Some (y * 2 ^ k)
       \<and> m * eps \<le> x * (y * 2 ^ k) * ept
       \<and> (\<forall>j < k. x * (y * 2 ^ j) * ept < m * eps)"
proof (induction "m * eps - x * y * ept" arbitrary: y rule: less_induct)
  case less
  show ?case
  proof (cases "x * y * ept < m * eps")
    case False
    then have "texture_height_loop m ept eps x y = Some (y * 2 ^ 0)"
      by (subst texture_height_loop.simps) simp
    with False show ?thesis
      by (intro exI[of _ 0]) simp
  next
    case True
    have pos: "0 < x * y * ept" using less.prems by simp
    moreover have "x * (y * 2) * ept = 2 * (x * y * ept)" by simp
    ultimately have "m * eps - x * (y * 2) * ept < m * eps - x * y * ept"
      using True by linarith
    from less.hyps[OF this less.prems(1,2)] less.prems(3)
    obtain k where k: "texture_height_loop m ept eps x (y * 2) = Some (y * 2 * 2 ^ k)"
      "m * eps \<le> x * (y * 2 * 2 ^ k) * ept"
      "\<forall>j < k. x * (y * 2 * 2 ^ j) * ept < m * eps"
      by auto
    have "texture_height_loop m ept eps x y = Some (y * 2 ^ Suc k)"
      using True k(1) by (subst texture_height_loop.simps) (simp add: mult.assoc)
    moreover have "m * eps \<le> x * (y * 2 ^ Suc k) * ept"
      using k(2) by (simp add: mult.assoc)
    moreover have "\<forall>j < Suc k. x * (y * 2 ^ j) * ept < m * eps"
    proof (intro allI impI)
      fix j assume "j < Suc k"
      show "x * (y * 2 ^ j) * ept < m * eps"
      proof (cases j)
        case 0 then show ?thesis using True by simp
      next
        case (Suc j')
        then have "j' < k" using \<open>j < Suc k\<close> by simp
        with k(3) Suc show ?thesis by (simp add: mult.assoc)
      qed
    qed
    ultimately show ?thesis by blast
  qed
qed

text \<open>
  C9. For every maximum splat count, and every positive number of elements per texel
  (the callers pass 2, 4 and 1), the doubling loop ends: the size returned has width 4096
  and a height \<open>1024 * 2 ^ k\<close> with \<open>width * height * elementsPerTexel\<close> at least
  \<open>maxSplatCount * elementsPerSplat\<close>, and every height tried before it was too small.
\<close>

theorem computeDataTextureSize_terminates:
  "0 < elementsPerTexel \<Longrightarrow>
   \<exists>k. computeDataTextureSize maxCount elementsPerTexel elementsPerSplat = Some (4096, 1024 * 2 ^ k)
       \<and> maxCount * elementsPerSplat \<le> 4096 * (1024 * 2 ^ k) * elementsPerTexel
       \<and> (\<forall>j < k. 4096 * (1024 * 2 ^ j) * elementsPerTexel < maxCount * elementsPerSplat)"
  using texture_height_loop_terminates[of elementsPerTexel 4096 1024 maxCount elementsPerSplat]
  by (auto simp: computeDataTextureSize_def)

theorem computeDataTextureSize_terminates_witness:
  "(0::nat) < 2 \<and>
   (\<exists>k. computeDataTextureSize 3000000 2 6 = Some (4096, 1024 * 2 ^ k)
       \<and> 3000000 * 6 \<le> 4096 * (1024 * 2 ^ k) * (2::nat)
       \<and> (\<forall>j < k. 4096 * (1024 * 2 ^ j) * 2 < 3000000 * (6::nat)))"
  using computeDataTextureSize_terminates[of 2 3000000 6] by simp


section \<open>Properties of the vertex shader\<close>

lemma clipCenter_axis: "clipCenter (axis_splat z c) = (0, 0, z, 1)"
  by (simp add: clipCenter_def viewCenter_def transformModelViewMatrix_def axis_splat_def identity4_def)

lemma clip_test_iff:
  "clip_test inp =
     (case clipCenter inp of (cx, cy, cz, cw) \<Rightarrow>
        \<bar>cx\<bar> > 1.2 * cw \<or> \<bar>cy\<bar> > 1.2 * cw \<or> cz < - (1.2 * cw))"
  by (auto simp: clip_test_def Let_def split: prod.splits)

lemma main_cases:
  "(main inp = Rejected (0, 0, 2, 1)) = clip_test inp"
  "(\<exists>p c v. main inp = Emitted p c v) = (\<not> clip_test inp)"
  by (simp_all add: main_def split: prod.splits del: split_paired_Ex)

text \<open>
  C5, as the shader has it. The splat is rejected (the shader returns early with the
  position \<open>(0, 0, 2, 1)\<close>, outside the clip volume) exactly when the clip-space \<open>x\<close> or
  \<open>y\<close> is outside the margin \<open>1.2 * w\<close> on either side, or the clip-space \<open>z\<close> is below
  \<open>- 1.2 * w\<close>; and it is emitted exactly when \<open>x\<close> and \<open>y\<close> are within the margin and
  \<open>z\<close> is not below \<open>- 1.2 * w\<close>. There is no test of \<open>z\<close> against \<open>+ 1.2 * w\<close>.
\<close>

theorem clip_rejection_amended:
  "(main inp = Rejected (0, 0, 2, 1)) =
     (case clipCenter inp of (cx, cy, cz, cw) \<Rightarrow>
        \<bar>cx\<bar> > 1.2 * cw \<or> \<bar>cy\<bar> > 1.2 * cw \<or> cz < - (1.2 * cw))
   \<and> (\<exists>p c v. main inp = Emitted p c v) =
     (case clipCenter inp of (cx, cy, cz, cw) \<Rightarrow>
        \<bar>cx\<bar> \<le> 1.2 * cw \<and> \<bar>cy\<bar> \<le> 1.2 * cw \<and> - (1.2 * cw) \<le> cz)"
  unfolding main_cases clip_test_iff by (auto split: prod.splits)

text \<open>
  C5 as stated fails on the far side: a splat on the optical axis with clip-space
  \<open>z = 2\<close> and \<open>w = 1\<close> lies outside the margin \<open>1.2 * w\<close> in \<open>z\<close> and is not rejected.
\<close>

theorem clip_far_side_counterexample:
  "clipCenter (axis_splat 2 0) = (0, 0, 2, 1)
   \<and> (2 :: real) > 1.2 * 1
   \<and> \<not> clip_test (axis_splat 2 0)
   \<and> main (axis_splat 2 0) \<noteq> Rejected (0, 0, 2, 1)"
  by (simp add: clipCenter_axis main_cases clip_test_def)







lemma normalize_divisor: "sqrt (x * x + y * y) = 0 \<longleftrightarrow> (x, y) = (0, 0)"
  by (simp add: add_nonneg_eq_0_iff)






lemma sum_lessThan_3: "(\<Sum>k<(3::nat). f k) = f 0 + f 1 + f 2"
  by (simp add: numeral_3_eq_3 numeral_2_eq_2 lessThan_Suc add.commute add.left_commute)

lemma entries_transpose: "entries (mat3_transpose A) = matrix_transpose (entries A)"
  by (cases A rule: prod_cases3; cases "fst A"; cases "fst (snd A)"; cases "snd (snd A)")
     (auto simp: matrix_transpose_def fun_eq_iff)

lemma entries_mul: "entries (mat3_mul A B) = matrix_mul (entries A) (entries B)"
proof -
  obtain a0 a1 a2 b0 b1 b2 c0 c1 c2 where A: "A = ((a0, a1, a2), (b0, b1, b2), (c0, c1, c2))"
    by (metis prod_cases3)
  obtain p0 p1 p2 q0 q1 q2 r0 r1 r2 where B: "B = ((p0, p1, p2), (q0, q1, q2), (r0, r1, r2))"
    by (metis prod_cases3)
  show ?thesis
    unfolding A B
    by (auto simp: matrix_mul_def fun_eq_iff sum_lessThan_3 algebra_simps)
qed

lemma T_spec: "entries (T inp) = spec_T inp"
  by (simp add: T_def W_def spec_T_def entries_mul entries_transpose)

lemma cov2D_spec: "entries (cov2Dm_projected inp) = spec_cov2D inp"
  by (simp add: cov2Dm_projected_def spec_cov2D_def entries_mul entries_transpose T_spec)

lemma cov2Dv_spec:
  "cov2Dv inp = (spec_cov2D inp 0 0 + 0.3, spec_cov2D inp 1 0, spec_cov2D inp 1 1 + 0.3)"
  unfolding cov2D_spec[symmetric] cov2Dv_def cov2Dm_def
  by (cases "cov2Dm_projected inp" rule: prod_cases3; cases "fst (cov2Dm_projected inp)";
      cases "fst (snd (cov2Dm_projected inp))") (auto split: prod.splits)

text \<open>
  C7. With the GLSL matrices read as matrices of rows and columns, the shader's \<open>T\<close> is
  \<open>transpose(modelView) * J\<close> and its 2D covariance is \<open>transpose(T) * Vrk * T\<close>; 0.3 is
  added to both diagonal entries of the upper-left block; with \<open>(a, b, d)\<close> that block,
  the radicand \<open>max(0.1, (trace / 2)\<^sup>2 - det)\<close> is positive, the eigenvalues are
  \<open>trace / 2\<close> plus and minus its square root, eigenvector 1 is
  \<open>normalize(b, eigenValue1 - a)\<close> and eigenvector 2 is its perpendicular
  \<open>(y, - x)\<close>, with scalar product zero.
\<close>

theorem covariance_projection_and_eigen:
  "entries (T inp) =
     matrix_mul (matrix_transpose (entries (mat3_of_mat4 (transformModelViewMatrix inp))))
                (entries (J inp))
   \<and> entries (cov2Dm_projected inp) =
       matrix_mul (matrix_mul (matrix_transpose (entries (T inp))) (entries (Vrk inp)))
                  (entries (T inp))
   \<and> entries (cov2Dm inp) 0 0 = entries (cov2Dm_projected inp) 0 0 + 0.3
   \<and> entries (cov2Dm inp) 1 1 = entries (cov2Dm_projected inp) 1 1 + 0.3
   \<and> entries (cov2Dm inp) 1 0 = entries (cov2Dm_projected inp) 1 0
   \<and> (case cov2Dv inp of (a, b, d) \<Rightarrow>
        a = entries (cov2Dm inp) 0 0 \<and> b = entries (cov2Dm inp) 1 0 \<and> d = entries (cov2Dm inp) 1 1
      \<and> 0 < max 0.1 (((a + d) / 2)\<^sup>2 - (a * d - b * b))
      \<and> eigenValue1 inp = (a + d) / 2 + sqrt (max 0.1 (((a + d) / 2)\<^sup>2 - (a * d - b * b)))
      \<and> eigenValue2_solved inp = (a + d) / 2 - sqrt (max 0.1 (((a + d) / 2)\<^sup>2 - (a * d - b * b)))
      \<and> eigenVector1 inp = normalize (b, eigenValue1 inp - a))
   \<and> (case (eigenVector1 inp, eigenVector2 inp) of
        ((x1, y1), (x2, y2)) \<Rightarrow> x2 = y1 \<and> y2 = - x1 \<and> x1 * x2 + y1 * y2 = 0)"
proof -
  obtain a0 a1 a2 b0 b1 b2 c0 c1 c2 where P: "cov2Dm_projected inp = ((a0, a1, a2), (b0, b1, b2), (c0, c1, c2))"
    by (metis prod_cases3)
  have 1: "entries (T inp) =
     matrix_mul (matrix_transpose (entries (mat3_of_mat4 (transformModelViewMatrix inp))))
                (entries (J inp))"
    by (simp add: T_def W_def entries_mul entries_transpose)
  have 2: "entries (cov2Dm_projected inp) =
       matrix_mul (matrix_mul (matrix_transpose (entries (T inp))) (entries (Vrk inp)))
                  (entries (T inp))"
    by (simp add: cov2Dm_projected_def entries_mul entries_transpose)
  have 3: "entries (cov2Dm inp) 0 0 = entries (cov2Dm_projected inp) 0 0 + 0.3"
     "entries (cov2Dm inp) 1 1 = entries (cov2Dm_projected inp) 1 1 + 0.3"
     "entries (cov2Dm inp) 1 0 = entries (cov2Dm_projected inp) 1 0"
    by (simp_all add: cov2Dm_def P)
  have 4: "(case cov2Dv inp of (a, b, d) \<Rightarrow>
        a = entries (cov2Dm inp) 0 0 \<and> b = entries (cov2Dm inp) 1 0 \<and> d = entries (cov2Dm inp) 1 1
      \<and> 0 < max 0.1 (((a + d) / 2)\<^sup>2 - (a * d - b * b))
      \<and> eigenValue1 inp = (a + d) / 2 + sqrt (max 0.1 (((a + d) / 2)\<^sup>2 - (a * d - b * b)))
      \<and> eigenValue2_solved inp = (a + d) / 2 - sqrt (max 0.1 (((a + d) / 2)\<^sup>2 - (a * d - b * b)))
      \<and> eigenVector1 inp = normalize (b, eigenValue1 inp - a))"
    by (simp add: cov2Dv_def cov2Dm_def P eigenValue1_def eigenValue2_solved_def term2_def
        eigenVector1_def Let_def power2_eq_square less_max_iff_disj)
  have 5: "(case (eigenVector1 inp, eigenVector2 inp) of
        ((x1, y1), (x2, y2)) \<Rightarrow> x2 = y1 \<and> y2 = - x1 \<and> x1 * x2 + y1 * y2 = 0)"
    by (simp add: eigenVector2_def split: prod.splits)
  from 1 2 3 4 5 show ?thesis by blast
qed

section \<open>Properties of the incremental guard\<close>

lemma check_multi:
  "1 < length (scenes m) \<Longrightarrow>
   checkForMultiSceneUpdateCondition m True f ''sinceLastBuild'' = Inl (multi_scene_error f)"
  by (simp add: checkForMultiSceneUpdateCondition_def multi_scene_error_def)

text \<open>
  C2. On a mesh with more than one scene, each of the five operations called with
  \<open>sinceLastBuild\<close> true throws the error that names the operation and the parameter.
  The two operations that change the mesh leave it exactly as it was, data textures
  and backing arrays included; the other three return nothing, so the arrays passed to
  them are not written.
\<close>

theorem multi_scene_incremental_rejected:
  "1 < length (scenes m) \<Longrightarrow>
     uploadSplatDataToTextures util m True =
       Some (Inl (multi_scene_error ''uploadSplatDataToTextures''), m)
   \<and> fillSplatDataArrays m covs cens cols applySceneTransform True forceDestFromZero =
       Inl (multi_scene_error ''fillSplatDataArrays'')
   \<and> getIntegerCenters m padFour True = Inl (multi_scene_error ''getIntegerCenters'')
   \<and> getFloatCenters m padFour True = Inl (multi_scene_error ''getFloatCenters'')
   \<and> updateGPUCentersBufferForDistancesComputation m True =
       (Inl (multi_scene_error ''updateGPUCentersBufferForDistancesComputation''), m)"
  by (simp add: check_multi uploadSplatDataToTextures_def fillSplatDataArrays_def
      getIntegerCenters_def getFloatCenters_def updateGPUCentersBufferForDistancesComputation_def
      bindE_def)

theorem multi_scene_incremental_rejected_witness:
  "1 < length (scenes (pipeline_mesh [demo_buffer 500, demo_buffer 300]))
   \<and> uploadSplatDataToTextures demo_util (pipeline_mesh [demo_buffer 500, demo_buffer 300]) True =
       Some (Inl (multi_scene_error ''uploadSplatDataToTextures''),
             pipeline_mesh [demo_buffer 500, demo_buffer 300])
   \<and> updateGPUCentersBufferForDistancesComputation
         (pipeline_mesh [demo_buffer 500, demo_buffer 300]) True =
       (Inl (multi_scene_error ''updateGPUCentersBufferForDistancesComputation''),
        pipeline_mesh [demo_buffer 500, demo_buffer 300])"
proof -
  have h: "1 < length (scenes (pipeline_mesh [demo_buffer 500, demo_buffer 300]))"
    by (simp add: pipeline_mesh_def constructed_mesh_def)
  from multi_scene_incremental_rejected[OF h, of demo_util] h show ?thesis by blast
qed

text \<open>
  C4. Every call of \<open>getFloatCenters\<close> throws. Hence, in float mode,
  \<open>updateGPUCentersBufferForDistancesComputation\<close> returns normally only when there is no
  renderer, in which case it does nothing; with a renderer it throws; and in no case
  does the data store of any GL buffer change.
\<close>

theorem getFloatCenters_always_throws:
  "(\<exists>e. getFloatCenters m padFour sinceLastBuild = Inl e)
   \<and> (\<not> integerBasedDistancesComputation m \<longrightarrow>
        (\<exists>r m'. updateGPUCentersBufferForDistancesComputation m sinceLastBuild = (r, m')
           \<and> (r = Inr () \<longrightarrow> renderer m = None \<and> m' = m)
           \<and> (renderer m \<noteq> None \<longrightarrow> (\<exists>e. r = Inl e))
           \<and> map_option bufferStore (renderer m') = map_option bufferStore (renderer m)))"
proof -
  have 1: "\<exists>e. getFloatCenters m p s = Inl e" for p s
    by (cases "checkForMultiSceneUpdateCondition m s ''getFloatCenters'' ''sinceLastBuild''")
       (simp_all add: getFloatCenters_def bindE_def read_binding_def)
  have 2: "\<exists>r m'. updateGPUCentersBufferForDistancesComputation m sinceLastBuild = (r, m')
           \<and> (r = Inr () \<longrightarrow> renderer m = None \<and> m' = m)
           \<and> (renderer m \<noteq> None \<longrightarrow> (\<exists>e. r = Inl e))
           \<and> map_option bufferStore (renderer m') = map_option bufferStore (renderer m)"
    if "\<not> integerBasedDistancesComputation m"
  proof -
    obtain e where e: "getFloatCenters m False sinceLastBuild = Inl e" using 1 by blast
    show ?thesis
    proof (cases "checkForMultiSceneUpdateCondition m sinceLastBuild
             ''updateGPUCentersBufferForDistancesComputation'' ''sinceLastBuild''")
      case (Inl x)
      then show ?thesis
        by (simp add: updateGPUCentersBufferForDistancesComputation_def)
    next
      case (Inr u)
      show ?thesis
      proof (cases "renderer m")
        case None
        with Inr show ?thesis
          by (simp add: updateGPUCentersBufferForDistancesComputation_def)
      next
        case (Some gl)
        with Inr that e show ?thesis
          by (simp add: updateGPUCentersBufferForDistancesComputation_def bindE_def Let_def
              bindVertexArray_def)
      qed
    qed
  qed
  from 1 2 show ?thesis by blast
qed

theorem getFloatCenters_always_throws_witness:
  "\<not> integerBasedDistancesComputation (pipeline_mesh [demo_buffer 500])
   \<and> (\<exists>e. getFloatCenters (pipeline_mesh [demo_buffer 500]) False False = Inl e)
   \<and> (\<exists>e m'. updateGPUCentersBufferForDistancesComputation (pipeline_mesh [demo_buffer 500]) False
                = (Inl e, m')
         \<and> map_option bufferStore (renderer m') = Some (bufferStore pipeline_context))"
proof -
  let ?m = "pipeline_mesh [demo_buffer 500]"
  have h: "\<not> integerBasedDistancesComputation ?m" "renderer ?m = Some pipeline_context"
    by (simp_all add: pipeline_mesh_def constructed_mesh_def)
  from getFloatCenters_always_throws[of ?m False False] h show ?thesis
    by (metis option.distinct(1) option.simps(9))
qed

section \<open>Properties of the disposal\<close>

lemmas dispose_defs = dispose_def disposeSplatTree_def disposeTextures_def disposeMeshData_def
      disposeDistancesComputationGPUResources_def disposeDistancesComputationGPUBufferResources_def
      deleteBuffer_def deleteVertexArray_def
      deleteProgram_def deleteShader_def deleteTransformFeedback_def Let_def

lemma dispose_pipeline_mesh:
  "dispose (pipeline_mesh bufs) =
     (pipeline_mesh bufs)
       \<lparr>renderer := Some (empty_context\<lparr>bufferStore := [5 \<mapsto> [], 6 \<mapsto> []], shaders := {3}\<rparr>),
        geometry_mesh := Some DummyGeometry, material_mesh := None, splatDataTextures := None,
        distancesTransformFeedback := initial_feedback\<lparr>transformIndexesBuffer := Some 6\<rparr>\<rparr>"
  by (simp add: dispose_defs
      pipeline_mesh_def constructed_mesh_def pipeline_context_def pipeline_feedback_def
      initial_feedback_def empty_context_def insert_Diff_if)

text \<open>
  C10 fails on the code. Disposing of a mesh whose pipeline is set up deletes the
  vertex array, the program, the transform feedback and the output distances buffer,
  but the centers buffer 5 and the transform-indexes buffer 6 stay live in the context
  (and so does vertex shader 3, whose handle the mesh never stored). The reference to
  the centers buffer is gone, the one to the transform-indexes buffer remains. A second
  disposal changes nothing.
\<close>

theorem dispose_leaks_centers_buffer:
  "(case renderer (dispose (pipeline_mesh bufs)) of
      Some gl \<Rightarrow> dom (bufferStore gl) = {5, 6}
               \<and> vertexArrays gl = {} \<and> programs gl = {} \<and> shaders gl = {3}
               \<and> transformFeedbacks gl = {}
    | None \<Rightarrow> False)
   \<and> centersBuffer (distancesTransformFeedback (dispose (pipeline_mesh bufs))) = None
   \<and> transformIndexesBuffer (distancesTransformFeedback (dispose (pipeline_mesh bufs))) = Some 6
   \<and> outDistancesBuffer (distancesTransformFeedback (dispose (pipeline_mesh bufs))) = None
   \<and> dispose (dispose (pipeline_mesh bufs)) = dispose (pipeline_mesh bufs)"
proof -
  have idem: "dispose (dispose (pipeline_mesh bufs)) = dispose (pipeline_mesh bufs)"
    unfolding dispose_pipeline_mesh
    by (simp add: dispose_defs pipeline_mesh_def constructed_mesh_def initial_feedback_def)
  show ?thesis
    unfolding idem unfolding dispose_pipeline_mesh
    by (auto simp: initial_feedback_def empty_context_def)
qed

section \<open>Properties of the fixed-point centers\<close>

lemma far_centers:
  "getIntegerCenters (constructed_mesh [far_buffer]) False False =
     Inr [word_of_int 2147484000, word_of_int 2147484000, word_of_int 2147484000]"
  by (simp add: getIntegerCenters_def checkForMultiSceneUpdateCondition_def constructed_mesh_def
      bindE_def fillCount_of_def getSplatCount_def getSplatCount_buffer_def far_buffer_def
      typed_array_length_def fillSplatDataArrays_def getScene_def fillSplatCenterArray_def
      fill_bounds_def fill_range_def loop_bound_def integer_center_step_def element_at_def
      js_truncate_def numeral_3_eq_3 Let_def to_fixed_def)

text \<open>
  C8 as stated fails where the rounded product does not fit in 32 signed bits: for a
  center component 2147484 the \<open>Int32Array\<close> holds -2147483296, not 2147484000.
\<close>

theorem integer_centers_wrap_counterexample:
  "(case getIntegerCenters (constructed_mesh [far_buffer]) False False of
      Inr intCenters \<Rightarrow>
        sint (intCenters ! 0) = - 2147483296
        \<and> sint (intCenters ! 0) \<noteq> round (1000 * (2147484 :: real))
    | Inl e \<Rightarrow> False)
   \<and> centerComponent far_buffer None 0 0 = Num 2147484"
  unfolding far_centers by (simp add: far_buffer_def)

lemma length_fold_update:
  "length (fold (\<lambda>k acc. acc[g k := h k]) ks xs) = length xs"
  by (induction ks arbitrary: xs) simp_all

lemma length_fill_range: "length (fill_range n attr lo hi dest out) = length out"
proof -
  have "length (fold (\<lambda>i acc. fold (\<lambda>k acc'. acc'[(i - lo + dest) * n + k := attr i k]) [0 ..< n] acc)
          is out) = length out" for "is"
    by (induction "is" arbitrary: out) (simp_all add: length_fold_update)
  then show ?thesis by (simp add: fill_range_def)
qed

lemma length_fillSplatCenterArray:
  "length (fillSplatCenterArray sb out tr a b c) = length out"
  by (simp add: fillSplatCenterArray_def length_fill_range split: prod.splits)

lemma fill_loop_centers_only:
  "fillSplatDataArrays_loop m since force idxs (d, a, (None, Some c, None)) = Inr st \<Longrightarrow>
   \<exists>d' a' c'. st = (d', a', (None, Some c', None)) \<and> length c' = length c"
proof (induction idxs arbitrary: d a c)
  case Nil
  then show ?case by auto
next
  case (Cons i idxs)
  from Cons.prems obtain scene where sc: "getScene m i = Inr scene"
    by (cases "getScene m i") (simp_all add: bindE_def Let_def)
  from Cons.prems sc show ?case
    by (auto simp: bindE_def Let_def length_fillSplatCenterArray dest!: Cons.IH)
qed

lemma integer_center_step_unfold:
  "integer_center_step pf fc k xs =
     (let cc = (if pf then 4 else 3);
          ys = xs[k * cc := to_fixed (ToNumber (element_at fc (k * 3))),
                  k * cc + 1 := to_fixed (ToNumber (element_at fc (k * 3 + 1))),
                  k * cc + 2 := to_fixed (ToNumber (element_at fc (k * 3 + 2)))]
      in if pf then ys[k * cc + 3 := 1000] else ys)"
  by (simp add: integer_center_step_def Let_def numeral_3_eq_3)

lemma length_integer_center_step [simp]:
  "length (integer_center_step pf fc k xs) = length xs"
  by (simp add: integer_center_step_unfold Let_def)

lemma integer_center_step_own:
  assumes "t < 3" "k * (if pf then 4 else 3) + t < length xs"
  shows "integer_center_step pf fc k xs ! (k * (if pf then 4 else 3) + t) =
           to_fixed (ToNumber (element_at fc (k * 3 + t)))"
proof -
  from assms(1) consider "t = 0" | "t = 1" | "t = 2" by linarith
  then show ?thesis
    using assms(2) by cases (auto simp: integer_center_step_unfold Let_def split: if_splits)
qed

lemma integer_center_step_pad:
  assumes "k * 4 + 3 < length xs"
  shows "integer_center_step True fc k xs ! (k * 4 + 3) = 1000"
  using assms by (simp add: integer_center_step_unfold Let_def)

lemma integer_center_step_other:
  assumes "j < k * (if pf then 4 else 3) \<or> (k + 1) * (if pf then 4 else 3) \<le> j"
  shows "integer_center_step pf fc k xs ! j = xs ! j"
  using assms by (auto simp: integer_center_step_unfold Let_def)

lemma integer_center_fold:
  assumes "n * (if pf then 4 else 3) \<le> length xs"
  shows "length (fold (integer_center_step pf fc) [0 ..< n] xs) = length xs
       \<and> (\<forall>i<n. \<forall>t<3. fold (integer_center_step pf fc) [0 ..< n] xs ! (i * (if pf then 4 else 3) + t) =
             to_fixed (ToNumber (element_at fc (i * 3 + t))))
       \<and> (pf \<longrightarrow> (\<forall>i<n. fold (integer_center_step pf fc) [0 ..< n] xs ! (i * 4 + 3) = 1000))"
  using assms
proof (induction n)
  case 0
  then show ?case by simp
next
  case (Suc n)
  let ?cc = "if pf then 4 else (3::nat)"
  let ?R = "fold (integer_center_step pf fc) [0 ..< n] xs"
  have IH: "length ?R = length xs"
     "\<And>i t. i < n \<Longrightarrow> t < 3 \<Longrightarrow> ?R ! (i * ?cc + t) = to_fixed (ToNumber (element_at fc (i * 3 + t)))"
     "\<And>i. pf \<Longrightarrow> i < n \<Longrightarrow> ?R ! (i * 4 + 3) = 1000"
    using Suc by auto
  have fold_Suc: "fold (integer_center_step pf fc) [0 ..< Suc n] xs = integer_center_step pf fc n ?R"
    by simp
  have len: "Suc n * ?cc \<le> length ?R" using Suc.prems IH(1) by simp
  show ?case
  proof (intro conjI allI impI)
    show "length (fold (integer_center_step pf fc) [0 ..< Suc n] xs) = length xs"
      by (simp add: IH(1))
  next
    fix i t assume it: "i < Suc n" "t < (3::nat)"
    show "fold (integer_center_step pf fc) [0 ..< Suc n] xs ! (i * ?cc + t) =
             to_fixed (ToNumber (element_at fc (i * 3 + t)))"
    proof (cases "i = n")
      case True
      have "n * ?cc + t < length ?R" using len it(2) by (auto split: if_splits)
      from integer_center_step_own[OF it(2) this] True show ?thesis
        unfolding fold_Suc by simp
    next
      case False
      then have i: "i < n" using it by simp
      then have "Suc i \<le> n" by simp
      then have "Suc i * ?cc \<le> n * ?cc" by (rule mult_le_mono1)
      then have "i * ?cc + t < n * ?cc" using it(2) by (auto split: if_splits)
      then show ?thesis
        unfolding fold_Suc using integer_center_step_other[of "i * ?cc + t" n pf fc ?R] IH(2)[OF i it(2)]
        by simp
    qed
  next
    fix i assume pf: pf and i: "i < Suc n"
    show "fold (integer_center_step pf fc) [0 ..< Suc n] xs ! (i * 4 + 3) = 1000"
    proof (cases "i = n")
      case True
      have "n * 4 + 3 < length ?R" using len pf by simp
      from integer_center_step_pad[OF this] True pf show ?thesis
        unfolding fold_Suc by simp
    next
      case False
      then have i': "i < n" using i by simp
      then have "i * 4 + 3 < n * 4" by simp
      then show ?thesis
        unfolding fold_Suc using integer_center_step_other[of "i * 4 + 3" n pf fc ?R] IH(3)[OF pf i'] pf
        by simp
    qed
  qed
qed

lemma matrix_fold:
  "fold (\<lambda>i acc. array_store acc i (f i)) [0 ..< n] [] = map (\<lambda>i. Some (f i)) [0 ..< n]"
  by (induction n) (simp_all add: array_store_def)

lemma getIntegerMatrixArray_eq:
  "getIntegerMatrixArray M =
     map (\<lambda>i. Some (Math_round (binary64_times1000 (ToNumber (element_at M i))))) [0 ..< 16]"
  unfolding getIntegerMatrixArray_def by (rule matrix_fold)

subsection \<open>The binary64 product\<close>

lemma exponent_search_bounds:
  "e - int n \<le> exponent_search n e x \<and> exponent_search n e x \<le> e"
proof (induction n arbitrary: e)
  case 0 then show ?case by simp
next
  case (Suc n)
  from Suc[of "e - 1"] show ?case by auto
qed

lemma exponent_search_lower:
  "exponent_search n e x \<noteq> e - int n \<Longrightarrow> 2 powi (exponent_search n e x) \<le> x"
proof (induction n arbitrary: e)
  case 0 then show ?case by simp
next
  case (Suc n)
  show ?case
  proof (cases "2 powi e \<le> x")
    case True then show ?thesis by simp
  next
    case False
    then have eq: "exponent_search (Suc n) e x = exponent_search n (e - 1) x" by simp
    with Suc.prems have "exponent_search n (e - 1) x \<noteq> (e - 1) - int n" by simp
    from Suc.IH[OF this] eq show ?thesis by simp
  qed
qed

lemma exponent_search_upper:
  "exponent_search n e x < e \<Longrightarrow> x < 2 powi (exponent_search n e x + 1)"
proof (induction n arbitrary: e)
  case 0 then show ?case by simp
next
  case (Suc n)
  show ?case
  proof (cases "2 powi e \<le> x")
    case True with Suc.prems show ?thesis by simp
  next
    case False
    then have eq: "exponent_search (Suc n) e x = exponent_search n (e - 1) x" by simp
    show ?thesis
    proof (cases "exponent_search n (e - 1) x < e - 1")
      case True
      from Suc.IH[OF this] eq show ?thesis by simp
    next
      case False
      with exponent_search_bounds[of "e - 1" n x] have "exponent_search n (e - 1) x = e - 1" by simp
      with eq \<open>\<not> 2 powi e \<le> x\<close> show ?thesis by simp
    qed
  qed
qed

lemma binary64_exponent_range: "- 1022 \<le> binary64_exponent x" "binary64_exponent x \<le> 1023"
  using exponent_search_bounds[of 1023 2045 "\<bar>x\<bar>"] by (simp_all add: binary64_exponent_def)

lemma binary64_exponent_lower:
  "binary64_exponent x \<noteq> - 1022 \<Longrightarrow> 2 powi (binary64_exponent x) \<le> \<bar>x\<bar>"
  using exponent_search_lower[of 2045 1023 "\<bar>x\<bar>"] by (simp add: binary64_exponent_def)

lemma binary64_exponent_upper:
  "binary64_exponent x < 1023 \<Longrightarrow> \<bar>x\<bar> < 2 powi (binary64_exponent x + 1)"
  using exponent_search_upper[of 2045 1023 "\<bar>x\<bar>"] by (simp add: binary64_exponent_def)

lemma binary64_exponent_eq:
  assumes "2 powi e \<le> \<bar>x\<bar>" "\<bar>x\<bar> < 2 powi (e + 1)" "- 1022 \<le> e" "e \<le> 1023"
  shows "binary64_exponent x = e"
proof (rule ccontr)
  assume ne: "binary64_exponent x \<noteq> e"
  let ?E = "binary64_exponent x"
  show False
  proof (cases "?E < e")
    case True
    then have "?E < 1023" using assms(4) by simp
    from binary64_exponent_upper[OF this] have "\<bar>x\<bar> < 2 powi (?E + 1)" .
    also have "(2::real) powi (?E + 1) \<le> 2 powi e"
      using True by (intro power_int_increasing) auto
    finally show False using assms(1) by simp
  next
    case False
    with ne have gt: "e < ?E" by simp
    then have "?E \<noteq> - 1022" using assms(3) by simp
    from binary64_exponent_lower[OF this] have "2 powi ?E \<le> \<bar>x\<bar>" .
    moreover have "(2::real) powi (e + 1) \<le> 2 powi ?E"
      using gt by (intro power_int_increasing) auto
    ultimately show False using assms(2) by simp
  qed
qed

lemma round_half_even_int [simp]: "round_half_even (of_int z) = z"
  by (simp add: round_half_even_def)

lemma round_half_even_error: "\<bar>of_int (round_half_even r) - r\<bar> \<le> 1 / 2"
  unfolding round_half_even_def Let_def
  by (auto simp: abs_le_iff; linarith)


lemma binary64_quantum_pos: "0 < (2::real) powi (binary64_exponent x - 52)"
  by simp

lemma binary64_exact:
  assumes x: "x = of_int mant * 2 powi k"
    and mant: "\<bar>mant\<bar> < 2 ^ 53" and k: "- 1074 \<le> k" "k \<le> 971"
  shows "binary64 x = Num x"
proof -
  let ?E = "binary64_exponent x"
  have absx: "\<bar>x\<bar> = of_int \<bar>mant\<bar> * 2 powi k"
    by (simp add: x abs_mult)
  have lt: "\<bar>x\<bar> < 2 powi (53 + k)"
  proof -
    have "(of_int \<bar>mant\<bar> :: real) < of_int (2 ^ 53)" using mant by (simp only: of_int_less_iff)
    then have "(of_int \<bar>mant\<bar> :: real) < 2 ^ 53" by simp
    then have "of_int \<bar>mant\<bar> * 2 powi k < 2 ^ 53 * (2::real) powi k"
      by (intro mult_strict_right_mono) auto
    also have "\<dots> = 2 powi (53 + k)" by (simp add: power_int_add)
    finally show ?thesis by (simp only: absx)
  qed
  have le: "?E - 52 \<le> k"
  proof (cases "?E = - 1022")
    case True with k show ?thesis by simp
  next
    case False
    from binary64_exponent_lower[OF this] lt have "(2::real) powi ?E < 2 powi (53 + k)" by simp
    then have "?E < 53 + k"
      by (metis not_le power_int_increasing one_le_numeral)
    then show ?thesis by simp
  qed
  define d where "d = nat (k - (?E - 52))"
  have kd: "k = (?E - 52) + int d" using le by (simp add: d_def)
  have "x / 2 powi (?E - 52) = of_int mant * 2 ^ d"
    by (subst x, subst kd, simp add: power_int_add)
  also have "\<dots> = of_int (mant * 2 ^ d)" by simp
  finally have q: "x / 2 powi (?E - 52) = of_int (mant * 2 ^ d)" .
  have y: "of_int (round_half_even (x / 2 powi (?E - 52))) * 2 powi (?E - 52) = x"
  proof -
    have "of_int (round_half_even (x / 2 powi (?E - 52))) = x / 2 powi (?E - 52)"
      by (simp only: q round_half_even_int)
    then show ?thesis by simp
  qed
  have "(2::real) powi (53 + k) \<le> 2 powi 1024"
    using k by (intro power_int_increasing) auto
  with lt have "\<bar>x\<bar> < 2 ^ 1024" by simp
  then have "\<not> 2 ^ 1024 \<le> x" "\<not> x \<le> - (2 ^ 1024)" by linarith+
  then show ?thesis
    unfolding binary64_def Let_def y by simp
qed

lemma binary64_error:
  assumes "\<bar>x\<bar> < 2 ^ 1023"
  shows "\<exists>y. binary64 x = Num y \<and> \<bar>y - x\<bar> \<le> \<bar>x\<bar> / 2 ^ 53 + 2 powi (- 1075)"
proof -
  let ?E = "binary64_exponent x"
  define q :: real where "q = 2 powi (?E - 52)"
  define y where "y = of_int (round_half_even (x / q)) * q"
  have qpos: "0 < q" by (simp add: q_def)
  have "\<bar>of_int (round_half_even (x / q)) - x / q\<bar> * q \<le> 1 / 2 * q"
    using round_half_even_error[of "x / q"] qpos by (intro mult_right_mono) auto
  moreover have "\<bar>of_int (round_half_even (x / q)) - x / q\<bar> * q = \<bar>y - x\<bar>"
  proof -
    have "\<bar>of_int (round_half_even (x / q)) - x / q\<bar> * q
        = \<bar>(of_int (round_half_even (x / q)) - x / q) * q\<bar>"
      using qpos by (simp add: abs_mult)
    also have "(of_int (round_half_even (x / q)) - x / q) * q = y - x"
      using qpos by (simp add: y_def algebra_simps)
    finally show ?thesis .
  qed
  ultimately have err: "\<bar>y - x\<bar> \<le> q / 2" by simp
  have half: "q / 2 = 2 powi (?E - 53)"
  proof -
    have "(2::real) powi (?E - 52) = 2 powi ((?E - 53) + 1)" by simp
    also have "\<dots> = 2 powi (?E - 53) * 2" by (subst power_int_add) auto
    finally show ?thesis by (simp add: q_def)
  qed
  have bound: "q / 2 \<le> \<bar>x\<bar> / 2 ^ 53 + 2 powi (- 1075)"
  proof (cases "?E = - 1022")
    case True
    then have "q / 2 = 2 powi (- 1075)" by (simp add: half)
    moreover have "0 \<le> \<bar>x\<bar> / 2 ^ 53" by simp
    ultimately show ?thesis by linarith
  next
    case False
    from binary64_exponent_lower[OF this] have l: "2 powi ?E \<le> \<bar>x\<bar>" .
    have "q / 2 = 2 powi ?E / 2 ^ 53"
      unfolding half by (subst power_int_diff) auto
    also have "\<dots> \<le> \<bar>x\<bar> / 2 ^ 53" using l by (intro divide_right_mono) auto
    finally have "q / 2 \<le> \<bar>x\<bar> / 2 ^ 53" .
    moreover have "0 \<le> (2::real) powi (- 1075)" by simp
    ultimately show ?thesis by linarith
  qed
  have "q / 2 \<le> 2 powi 970"
    unfolding half using binary64_exponent_range(2)[of x] by (intro power_int_increasing) auto
  then have "q / 2 \<le> 2 ^ 970" by simp
  with err assms have "\<bar>y\<bar> < 2 ^ 1023 + 2 ^ 970" by linarith
  also have "(2::real) ^ 1023 + 2 ^ 970 \<le> 2 ^ 1024" by simp
  finally have "\<not> 2 ^ 1024 \<le> y" "\<not> y \<le> - (2 ^ 1024)" by linarith+
  then have "binary64 x = Num y"
    unfolding binary64_def Let_def q_def[symmetric] y_def[symmetric] by simp
  with err bound show ?thesis by (intro exI[of _ y]) simp
qed

lemma binary64_half_way:
  "binary64 (5188146770730811 / 2 ^ 60 * 1000) = Num (9 / 2)"
proof -
  have e: "binary64_exponent (5188146770730811 / 2 ^ 60 * 1000) = 2"
    by (rule binary64_exponent_eq) simp_all
  show ?thesis
    unfolding binary64_def Let_def e
    by (simp add: round_half_even_def)
qed

text \<open>
  The product of a 32-bit float with 1000 is a binary64 number, so on the elements of a
  \<open>Float32Array\<close> the rounded product is the real product.
\<close>

lemma times1000_exact_on_float32:
  assumes c: "c = of_int mant * 2 powi k"
    and mant: "\<bar>mant\<bar> < 2 ^ 24" and k: "- 149 \<le> k" "k \<le> 104"
  shows "binary64_times1000 (Num c) = times1000 (Num c)"
proof -
  have "(2::real) powi (k + 3) = 2 powi k * 2 powi 3" by (subst power_int_add) auto
  then have "c * 1000 = of_int (mant * 125) * 2 powi (k + 3)"
    by (simp add: c)
  moreover have "\<bar>mant * 125\<bar> < 2 ^ 53" using mant by (simp add: abs_mult)
  ultimately have "binary64 (c * 1000) = Num (c * 1000)"
    using k by (intro binary64_exact[of _ "mant * 125" "k + 3"]) auto
  then show ?thesis by simp
qed

text \<open>
  A matrix element for which the product is rounded to a tie: the binary64 number
  nearest to 0.0045 times 1000 lies below 4.5 and is rounded to 4.5, of which
  \<open>Math.round\<close> is 5, while the integer nearest to the exact product is 4.
\<close>

lemma matrix_product_rounding_example:
  "getIntegerMatrixArray half_way_matrix ! 0 = Some (Num 5)
   \<and> round (1000 * (5188146770730811 / 2 ^ 60 :: real)) = 4"
proof -
  have "getIntegerMatrixArray half_way_matrix ! 0 =
      Some (Math_round (binary64 (5188146770730811 / 2 ^ 60 * 1000)))"
    by (simp add: getIntegerMatrixArray_eq half_way_matrix_def element_at_def del: upt_Suc)
  also have "\<dots> = Some (Num 5)"
    by (simp only: binary64_half_way) simp
  finally show ?thesis by (simp add: round_def)
qed

lemma to_fixed_in_range:
  assumes "- (2 ^ 31) \<le> round (1000 * r)" "round (1000 * r) < 2 ^ 31"
  shows "sint (to_fixed (Num r)) = round (1000 * r)"
proof -
  have "js_truncate (of_int z) = z" for z by (simp add: js_truncate_def)
  then have "to_fixed (Num r) = word_of_int (round (1000 * r))"
    by (simp add: to_fixed_def round_def mult.commute)
  moreover have "sint (word_of_int (round (1000 * r)) :: 32 word) = round (1000 * r)"
    using assms by (simp add: sint_sbintrunc' signed_take_bit_int_eq_self)
  ultimately show ?thesis by simp
qed


lemma fillSplatDataArrays_centers_only:
  assumes "fillSplatDataArrays m None (Some c) None a since force = Inr filled"
  shows "\<exists>c'. filled = (None, Some c', None) \<and> length c' = length c"
proof -
  from assms obtain st where
    st: "fillSplatDataArrays_loop m since force [0 ..< length (scenes m)] (0, a, (None, Some c, None)) = Inr st"
    and f: "filled = snd (snd st)"
    by (auto simp: fillSplatDataArrays_def bindE_def split: sum.splits)
  from fill_loop_centers_only[OF st] f show ?thesis by auto
qed

lemma typed_array_length_times:
  assumes "typed_array_length (map_option (\<lambda>n. n * int c) fillCount) = Inr len"
  shows "len = loop_bound fillCount * c"
proof (cases fillCount)
  case None
  with assms show ?thesis by (simp add: typed_array_length_def loop_bound_def)
next
  case (Some k)
  show ?thesis
  proof (cases "c = 0")
    case True
    with assms Some show ?thesis by (simp add: typed_array_length_def loop_bound_def)
  next
    case False
    with assms Some have "0 \<le> k * int c" "len = nat (k * int c)"
      by (auto simp: typed_array_length_def split: if_splits)
    then show ?thesis using Some False
      by (simp add: loop_bound_def nat_mult_distrib zero_le_mult_iff)
  qed
qed

text \<open>
  C8, as the code has it. Whenever \<open>getIntegerCenters\<close> returns, the float centers it
  extracted hold three components for each of the \<open>n\<close> splats filled, and the result
  holds, for each splat and each of the three components, \<open>Math.round\<close> of 1000 times
  the component stored as a 32-bit integer: the integer \<open>round (1000 * r)\<close> itself
  whenever that lies in the signed 32-bit range. With \<open>padFour\<close> the fourth component
  of every splat is 1000. \<open>getIntegerMatrixArray\<close> returns 16 elements, each
  \<open>Math.round\<close> of the binary64 product of the matrix element and 1000. For a finite
  element \<open>r\<close> that is \<open>round (1000 * r)\<close> whenever \<open>1000 * r\<close> is a binary64 number
  (a significand below \<open>2 ^ 53\<close> times a power of two in the binary64 range); in
  general, for a product of magnitude below \<open>2 ^ 1023\<close>, it is an integer within
  \<open>1 / 2 + \<bar>1000 * r\<bar> / 2 ^ 53 + 2 powi (- 1075)\<close> of \<open>1000 * r\<close>.
\<close>

theorem integer_centers_amended:
  "(\<forall>intCenters. getIntegerCenters m padFour sinceLastBuild = Inr intCenters \<longrightarrow>
     (\<exists>floatCenters n.
        fillSplatDataArrays m None (Some (replicate (n * 3) (Num 0))) None None
          sinceLastBuild sinceLastBuild = Inr (None, Some floatCenters, None)
      \<and> n = loop_bound (fillCount_of m sinceLastBuild)
      \<and> length floatCenters = n * 3
      \<and> length intCenters = n * (if padFour then 4 else 3)
      \<and> (\<forall>i<n. \<forall>t<3.
            intCenters ! (i * (if padFour then 4 else 3) + t) = to_fixed (floatCenters ! (i * 3 + t))
          \<and> (\<forall>r. floatCenters ! (i * 3 + t) = Num r \<and> - (2 ^ 31) \<le> round (1000 * r)
                   \<and> round (1000 * r) < 2 ^ 31 \<longrightarrow>
                 sint (intCenters ! (i * (if padFour then 4 else 3) + t)) = round (1000 * r)))
      \<and> (padFour \<longrightarrow> (\<forall>i<n. intCenters ! (i * 4 + 3) = 1000))))
   \<and> length (getIntegerMatrixArray M) = 16
   \<and> (\<forall>i<16.
          getIntegerMatrixArray M ! i =
            Some (Math_round (binary64_times1000 (ToNumber (element_at M i))))
        \<and> (\<forall>r mant k. element_at M i = Some (Num r) \<and> 1000 * r = of_int mant * 2 powi k
                  \<and> \<bar>mant\<bar> < 2 ^ 53 \<and> - 1074 \<le> k \<and> k \<le> 971 \<longrightarrow>
              getIntegerMatrixArray M ! i = Some (Num (of_int (round (1000 * r)))))
        \<and> (\<forall>r. element_at M i = Some (Num r) \<and> \<bar>1000 * r\<bar> < 2 ^ 1023 \<longrightarrow>
              (\<exists>n. getIntegerMatrixArray M ! i = Some (Num (of_int n))
                 \<and> \<bar>of_int n - 1000 * r\<bar> \<le> 1 / 2 + \<bar>1000 * r\<bar> / 2 ^ 53 + 2 powi (- 1075))))"
proof (intro conjI allI impI)
  fix intCenters
  assume A: "getIntegerCenters m padFour sinceLastBuild = Inr intCenters"
  let ?fcnt = "fillCount_of m sinceLastBuild"
  let ?n = "loop_bound ?fcnt"
  let ?cc = "if padFour then 4 else (3::nat)"
  from A obtain len where len: "typed_array_length (map_option (\<lambda>n. n * 3) ?fcnt) = Inr len"
    by (cases "typed_array_length (map_option (\<lambda>n. n * 3) ?fcnt)")
       (auto simp: getIntegerCenters_def bindE_def Let_def split: sum.splits)
  from A len obtain filled where
    filled: "fillSplatDataArrays m None (Some (replicate len (Num 0))) None None
               sinceLastBuild sinceLastBuild = Inr filled"
    by (cases "fillSplatDataArrays m None (Some (replicate len (Num 0))) None None
               sinceLastBuild sinceLastBuild")
       (auto simp: getIntegerCenters_def bindE_def Let_def split: sum.splits)
  from fillSplatDataArrays_centers_only[OF filled] obtain fc where
    fc: "filled = (None, Some fc, None)" "length fc = len" by auto
  from A len filled obtain ilen where
    ilen: "typed_array_length (map_option (\<lambda>n. n * int ?cc) ?fcnt) = Inr ilen"
    by (cases "typed_array_length (map_option (\<lambda>n. n * int ?cc) ?fcnt)")
       (auto simp: getIntegerCenters_def bindE_def Let_def split: sum.splits if_splits)
  have len3: "len = ?n * 3"
    using typed_array_length_times[of 3 ?fcnt len] len by simp
  have ilen': "ilen = ?n * ?cc"
    using typed_array_length_times[OF ilen] .
  have res: "intCenters = fold (integer_center_step padFour fc) [0 ..< ?n] (replicate ilen 0)"
    using A len filled ilen fc
    by (auto simp: getIntegerCenters_def bindE_def Let_def split: sum.splits if_splits)
  have F: "length intCenters = ilen"
     "\<And>i t. i < ?n \<Longrightarrow> t < 3 \<Longrightarrow>
        intCenters ! (i * ?cc + t) = to_fixed (ToNumber (element_at fc (i * 3 + t)))"
     "\<And>i. padFour \<Longrightarrow> i < ?n \<Longrightarrow> intCenters ! (i * 4 + 3) = 1000"
    using integer_center_fold[of ?n padFour "replicate ilen 0" fc] ilen'
    unfolding res by auto
  have el: "ToNumber (element_at fc (i * 3 + t)) = fc ! (i * 3 + t)" if "i < ?n" "t < 3" for i t
  proof -
    have "Suc i \<le> ?n" using that by simp
    then have "Suc i * 3 \<le> ?n * 3" by (rule mult_le_mono1)
    then have "i * 3 + t < length fc" using that fc(2) len3 by simp
    then show ?thesis by (simp add: element_at_def)
  qed
  show "\<exists>floatCenters n.
        fillSplatDataArrays m None (Some (replicate (n * 3) (Num 0))) None None
          sinceLastBuild sinceLastBuild = Inr (None, Some floatCenters, None)
      \<and> n = loop_bound (fillCount_of m sinceLastBuild)
      \<and> length floatCenters = n * 3
      \<and> length intCenters = n * (if padFour then 4 else 3)
      \<and> (\<forall>i<n. \<forall>t<3.
            intCenters ! (i * (if padFour then 4 else 3) + t) = to_fixed (floatCenters ! (i * 3 + t))
          \<and> (\<forall>r. floatCenters ! (i * 3 + t) = Num r \<and> - (2 ^ 31) \<le> round (1000 * r)
                   \<and> round (1000 * r) < 2 ^ 31 \<longrightarrow>
                 sint (intCenters ! (i * (if padFour then 4 else 3) + t)) = round (1000 * r)))
      \<and> (padFour \<longrightarrow> (\<forall>i<n. intCenters ! (i * 4 + 3) = 1000))"
  proof (intro exI[of _ fc] exI[of _ ?n] conjI allI impI)
    show "fillSplatDataArrays m None (Some (replicate (?n * 3) (Num 0))) None None
          sinceLastBuild sinceLastBuild = Inr (None, Some fc, None)"
      using filled fc(1) len3 by simp
    show "length fc = ?n * 3" using fc(2) len3 by simp
    show "length intCenters = ?n * ?cc" using F(1) ilen' by simp
  next
    fix i t assume "i < ?n" "t < (3::nat)"
    then show "intCenters ! (i * ?cc + t) = to_fixed (fc ! (i * 3 + t))"
      using F(2) el by simp
  next
    fix i t r assume it: "i < ?n" "t < (3::nat)"
      and r: "fc ! (i * 3 + t) = Num r \<and> - (2 ^ 31) \<le> round (1000 * r) \<and> round (1000 * r) < 2 ^ 31"
    have "intCenters ! (i * ?cc + t) = to_fixed (Num r)"
      using F(2)[OF it] el[OF it] r by simp
    then show "sint (intCenters ! (i * ?cc + t)) = round (1000 * r)"
      using to_fixed_in_range[of r] r by simp
  next
    fix i assume "padFour" "i < ?n"
    then show "intCenters ! (i * 4 + 3) = 1000" using F(3) by simp
  qed simp
next
  show "length (getIntegerMatrixArray M) = 16"
    by (simp add: getIntegerMatrixArray_eq)
next
  fix i :: nat assume "i < 16"
  then show "getIntegerMatrixArray M ! i =
      Some (Math_round (binary64_times1000 (ToNumber (element_at M i))))"
    by (simp add: getIntegerMatrixArray_eq del: upt_Suc)
next
  fix i :: nat and r mant k
  assume i: "i < 16"
    and h: "element_at M i = Some (Num r) \<and> 1000 * r = of_int mant * 2 powi k
              \<and> \<bar>mant\<bar> < 2 ^ 53 \<and> - 1074 \<le> k \<and> k \<le> 971"
  from h have "binary64 (1000 * r) = Num (1000 * r)"
    by (intro binary64_exact[of _ mant k]) auto
  then have "binary64_times1000 (Num r) = Num (1000 * r)" by (simp add: mult.commute)
  with i h show "getIntegerMatrixArray M ! i = Some (Num (of_int (round (1000 * r))))"
    by (simp add: getIntegerMatrixArray_eq round_def del: upt_Suc)
next
  fix i :: nat and r
  assume i: "i < 16"
    and h: "element_at M i = Some (Num r) \<and> \<bar>1000 * r\<bar> < 2 ^ 1023"
  from h binary64_error[of "1000 * r"] obtain y where
    y: "binary64 (1000 * r) = Num y" "\<bar>y - 1000 * r\<bar> \<le> \<bar>1000 * r\<bar> / 2 ^ 53 + 2 powi (- 1075)"
    by blast
  from y(1) have "binary64_times1000 (Num r) = Num y" by (simp add: mult.commute)
  with i h have res: "getIntegerMatrixArray M ! i = Some (Num (of_int \<lfloor>y + 1 / 2\<rfloor>))"
    by (simp add: getIntegerMatrixArray_eq del: upt_Suc)
  have "\<bar>of_int \<lfloor>y + 1 / 2\<rfloor> - y\<bar> \<le> 1 / 2" by linarith
  with y(2) have "\<bar>of_int \<lfloor>y + 1 / 2\<rfloor> - 1000 * r\<bar>
      \<le> 1 / 2 + \<bar>1000 * r\<bar> / 2 ^ 53 + 2 powi (- 1075)"
    by linarith
  with res show "\<exists>n. getIntegerMatrixArray M ! i = Some (Num (of_int n))
       \<and> \<bar>of_int n - 1000 * r\<bar> \<le> 1 / 2 + \<bar>1000 * r\<bar> / 2 ^ 53 + 2 powi (- 1075)"
    by blast
qed


lemma demo_centers:
  "getIntegerCenters (constructed_mesh [demo_buffer 2]) True False =
     Inr [0, 0, 0, 1000, 1000, 1000, 1000, 1000]"
  by (simp add: getIntegerCenters_def checkForMultiSceneUpdateCondition_def constructed_mesh_def
      bindE_def fillCount_of_def getSplatCount_def getSplatCount_buffer_def demo_buffer_def
      typed_array_length_def fillSplatDataArrays_def getScene_def fillSplatCenterArray_def
      fill_bounds_def fill_range_def loop_bound_def integer_center_step_def element_at_def
      js_truncate_def eval_nat_numeral Let_def to_fixed_def)

theorem integer_centers_amended_witness:
  "getIntegerCenters (constructed_mesh [demo_buffer 2]) True False =
     Inr [0, 0, 0, 1000, 1000, 1000, 1000, 1000]
   \<and> loop_bound (fillCount_of (constructed_mesh [demo_buffer 2]) False) = 2
   \<and> [0, 0, 0, 1000, 1000, 1000, 1000, 1000 :: 32 word] ! (1 * 4 + 3) = 1000
   \<and> element_at identity_matrix 0 = Some (Num 1)
   \<and> 1000 * (1::real) = of_int 125 * 2 powi 3
   \<and> getIntegerMatrixArray identity_matrix ! 0 = Some (Num (of_int (round (1000 * (1::real)))))
   \<and> \<bar>1000 * (1::real)\<bar> < 2 ^ 1023
   \<and> (\<exists>n. getIntegerMatrixArray identity_matrix ! 0 = Some (Num (of_int n))
          \<and> \<bar>of_int n - 1000 * (1::real)\<bar> \<le> 1 / 2 + \<bar>1000 * (1::real)\<bar> / 2 ^ 53 + 2 powi (- 1075))"
proof -
  let ?m = "constructed_mesh [demo_buffer 2]"
  let ?ints = "[0, 0, 0, 1000, 1000, 1000, 1000, 1000 :: 32 word]"
  note T = integer_centers_amended[of ?m True False identity_matrix]
  have n: "loop_bound (fillCount_of ?m False) = 2"
    by (simp add: loop_bound_def fillCount_of_def getSplatCount_def constructed_mesh_def
        getSplatCount_buffer_def demo_buffer_def)
  have e: "element_at identity_matrix 0 = Some (Num 1)"
    by (simp add: element_at_def identity_matrix_def)
  have p: "1000 * (1::real) = of_int 125 * 2 powi 3" by simp
  from T have "getIntegerCenters ?m True False = Inr ?ints \<longrightarrow>
     (\<exists>floatCenters n. n = loop_bound (fillCount_of ?m False)
        \<and> (True \<longrightarrow> (\<forall>i<n. ?ints ! (i * 4 + 3) = 1000)))"
    by blast
  with demo_centers n have "\<forall>i<(2::nat). ?ints ! (i * 4 + 3) = 1000"
    by metis
  then have pad: "?ints ! (1 * 4 + 3) = 1000"
    by (metis one_less_numeral_iff semiring_norm(76))
  from T have "\<forall>i<(16::nat). \<forall>r mant k.
       element_at identity_matrix i = Some (Num r) \<and> 1000 * r = of_int mant * 2 powi k
         \<and> \<bar>mant\<bar> < 2 ^ 53 \<and> - 1074 \<le> k \<and> k \<le> 971 \<longrightarrow>
       getIntegerMatrixArray identity_matrix ! i = Some (Num (of_int (round (1000 * r))))"
    by blast
  then have "element_at identity_matrix 0 = Some (Num 1) \<and> 1000 * (1::real) = of_int 125 * 2 powi 3
        \<and> \<bar>125 :: int\<bar> < 2 ^ 53 \<and> - 1074 \<le> (3::int) \<and> (3::int) \<le> 971 \<longrightarrow>
       getIntegerMatrixArray identity_matrix ! 0 = Some (Num (of_int (round (1000 * (1::real)))))"
    by (metis zero_less_numeral)
  with e p have exact: "getIntegerMatrixArray identity_matrix ! 0 = Some (Num (of_int (round (1000 * (1::real)))))"
    by simp
  have small: "\<bar>1000 * (1::real)\<bar> < 2 ^ 1023" by simp
  from T have "\<forall>i<(16::nat). \<forall>r. element_at identity_matrix i = Some (Num r) \<and> \<bar>1000 * r\<bar> < 2 ^ 1023 \<longrightarrow>
       (\<exists>n. getIntegerMatrixArray identity_matrix ! i = Some (Num (of_int n))
          \<and> \<bar>of_int n - 1000 * r\<bar> \<le> 1 / 2 + \<bar>1000 * r\<bar> / 2 ^ 53 + 2 powi (- 1075))"
    by blast
  then have "element_at identity_matrix 0 = Some (Num 1) \<and> \<bar>1000 * (1::real)\<bar> < 2 ^ 1023 \<longrightarrow>
       (\<exists>n. getIntegerMatrixArray identity_matrix ! 0 = Some (Num (of_int n))
          \<and> \<bar>of_int n - 1000 * (1::real)\<bar> \<le> 1 / 2 + \<bar>1000 * (1::real)\<bar> / 2 ^ 53 + 2 powi (- 1075))"
    by (metis zero_less_numeral)
  with e small have near: "\<exists>n. getIntegerMatrixArray identity_matrix ! 0 = Some (Num (of_int n))
          \<and> \<bar>of_int n - 1000 * (1::real)\<bar> \<le> 1 / 2 + \<bar>1000 * (1::real)\<bar> / 2 ^ 53 + 2 powi (- 1075)"
    by blast
  from e p pad n demo_centers exact small near show ?thesis by blast
qed

section \<open>The incremental update against the full rebuild\<close>





























lemma getSplatCount_cong: "scenes m' = scenes m \<Longrightarrow> getSplatCount m' = getSplatCount m"
  by (simp add: getSplatCount_def)










end
